theory Spec2Isabelle
  imports Main "HOL-Library.AList"
begin

text \<open>
  A model of the translation core of \<^verbatim>\<open>app.js\<close>, the English to Lunari translator: the
  tokenizer, the dictionary lookups, the casing transfer, \<^verbatim>\<open>translateText\<close> and the bulk
  additions to the dictionary. The definitions come first, in the order of the source;
  the statements C1 to C10 about them follow.
\<close>

section \<open>Strings of the translator\<close>

text \<open>
  The translator of \<^verbatim>\<open>app.js\<close> works on JavaScript strings, sequences of 16-bit code
  units. A code unit is modelled as a natural number (the code units are the numbers
  below 65536; the translator compares code units and never computes with one) and a
  string as the list of its code units. \<open>str\<close> writes a string literal of the source,
  whose characters are ASCII, as the list of its code units.
\<close>

type_synonym codeunit = nat

type_synonym jsstring = "codeunit list"

definition str :: "string \<Rightarrow> jsstring" where
  "str s = map of_char s"

text \<open>The character classes \<^verbatim>\<open>[A-Z]\<close>, \<^verbatim>\<open>[a-z]\<close> and \<^verbatim>\<open>[A-Za-z]\<close>.\<close>

definition isUpperLetter :: "codeunit \<Rightarrow> bool" where
  "isUpperLetter c = (0x41 \<le> c \<and> c \<le> 0x5A)"

definition isLowerLetter :: "codeunit \<Rightarrow> bool" where
  "isLowerLetter c = (0x61 \<le> c \<and> c \<le> 0x7A)"

definition isLetter :: "codeunit \<Rightarrow> bool" where
  "isLetter c = (isUpperLetter c \<or> isLowerLetter c)"

text \<open>
  The class \<^verbatim>\<open>\s\<close>, which is also what \<^verbatim>\<open>trim\<close> removes: the white space and the line
  terminators of the language. These are tab, line feed, vertical tab, form feed,
  carriage return, space, the no-break space, the Ogham space mark, the spaces U+2000 to
  U+200A, the line and the paragraph separator, the narrow no-break space, the medium
  mathematical space, the ideographic space and the byte order mark.
\<close>

definition isSpace :: "codeunit \<Rightarrow> bool" where
  "isSpace c =
     (c \<in> set [0x09, 0x0A, 0x0B, 0x0C, 0x0D, 0x20, 0xA0, 0x1680, 0x2028, 0x2029, 0x202F,
                0x205F, 0x3000, 0xFEFF]
      \<or> (0x2000 \<le> c \<and> c \<le> 0x200A))"

text \<open>The line terminators, which \<^verbatim>\<open>.\<close> does not match.\<close>

definition isLineTerminator :: "codeunit \<Rightarrow> bool" where
  "isLineTerminator c = (c \<in> set [0x0A, 0x0D, 0x2028, 0x2029])"

definition trim :: "jsstring \<Rightarrow> jsstring" where
  "trim s = rev (dropWhile isSpace (rev (dropWhile isSpace s)))"

text \<open>\<^verbatim>\<open>s.replace(/\s+/g, " ")\<close>: every maximal run of white space becomes one space.\<close>

function collapseSpaces :: "jsstring \<Rightarrow> jsstring" where
  "collapseSpaces [] = []"
| "collapseSpaces (c # cs) =
     (if isSpace c then 0x20 # collapseSpaces (dropWhile isSpace cs)
      else c # collapseSpaces cs)"
  by pat_completeness auto

termination
  by (relation "measure length") (auto simp: less_Suc_eq_le length_dropWhile_le)

definition normalizeSpaces :: "jsstring \<Rightarrow> jsstring" where
  "normalizeSpaces s = collapseSpaces (trim s)"

section \<open>Tokenizer\<close>

text \<open>
  \<^verbatim>\<open>input.match(/[A-Za-z]+(?:'[A-Za-z]+)?|[^A-Za-z]+/g) || []\<close>.
  \<open>matchWord\<close> is the first alternative tried at the start of a string: a greedy run of
  letters, then, if an apostrophe and at least one letter follow, the apostrophe and the
  greedy run of letters after it. \<open>matchSep\<close> is the second alternative, a greedy run of
  non-letters. Both return the matched text and the rest of the input.
\<close>

definition apostrophe :: codeunit where
  "apostrophe = 0x27"

definition matchWord :: "jsstring \<Rightarrow> (jsstring \<times> jsstring) option" where
  "matchWord s =
     (let word = takeWhile isLetter s; rest = dropWhile isLetter s in
      if word = [] then None
      else (case rest of
              [] \<Rightarrow> Some (word, rest)
            | q # rest' \<Rightarrow>
                if q = apostrophe \<and> takeWhile isLetter rest' \<noteq> []
                then Some (word @ q # takeWhile isLetter rest', dropWhile isLetter rest')
                else Some (word, rest)))"

definition matchSep :: "jsstring \<Rightarrow> (jsstring \<times> jsstring) option" where
  "matchSep s =
     (let sep = takeWhile (\<lambda>c. \<not> isLetter c) s in
      if sep = [] then None else Some (sep, dropWhile (\<lambda>c. \<not> isLetter c) s))"

definition matchToken :: "jsstring \<Rightarrow> (jsstring \<times> jsstring) option" where
  "matchToken s = (case matchWord s of Some m \<Rightarrow> Some m | None \<Rightarrow> matchSep s)"

text \<open>
  The global match: repeat from the end of the last match; where nothing matches at a
  position the search moves one character on; at the end of the input it stops.
  \<^verbatim>\<open>|| []\<close> turns the \<^verbatim>\<open>null\<close> of "no match" into the empty array. Every match is
  shorter than the input it is found in, so the function is total (its termination is
  proved below, with the facts about \<open>matchToken\<close> it needs).
\<close>

function tokenizeKeepPunct :: "jsstring \<Rightarrow> jsstring list" where
  "tokenizeKeepPunct s =
     (case matchToken s of
        Some (tok, rest) \<Rightarrow> tok # tokenizeKeepPunct rest
      | None \<Rightarrow> (case s of [] \<Rightarrow> [] | c # s' \<Rightarrow> tokenizeKeepPunct s'))"
  by pat_completeness auto

text \<open>\<^verbatim>\<open>/^[A-Za-z]+(?:'[A-Za-z]+)?$/.test(tok)\<close>: the word pattern matches all of \<open>tok\<close>.\<close>

definition isWordToken :: "jsstring \<Rightarrow> bool" where
  "isWordToken tok = (case matchWord tok of Some (w, rest) \<Rightarrow> rest = [] | None \<Rightarrow> False)"

section \<open>Dictionary values\<close>

text \<open>
  The dictionary is the result of \<^verbatim>\<open>JSON.parse\<close> (or of \<^verbatim>\<open>res.json()\<close>), so what it
  holds are JSON values. A number is carried as the text \<^verbatim>\<open>String\<close> prints for it: the
  translator observes a number only through its truth value (false for zero, printed
  \<^verbatim>\<open>0\<close>, and for \<^verbatim>\<open>NaN\<close>) and through that text. The own properties of an object are an
  association list, read with \<open>map_of\<close>.
\<close>

datatype json =
    JNull
  | JBool bool
  | JNum jsstring
  | JStr jsstring
  | JArr "json list"
  | JObj "(jsstring \<times> json) list"

type_synonym jsobject = "(jsstring \<times> json) list"

text \<open>
  The values a property read can give: \<^verbatim>\<open>undefined\<close>, a JSON value, a built-in function
  (one that objects inherit from \<^verbatim>\<open>Object.prototype\<close> or arrays from
  \<^verbatim>\<open>Array.prototype\<close>), or one of these two prototype objects itself.
\<close>

datatype jsval =
    Undefined
  | Json json
  | Builtin jsstring
  | ObjectPrototype
  | ArrayPrototype

datatype error = TypeError | RangeError

fun jsonTruthy :: "json \<Rightarrow> bool" where
  "jsonTruthy JNull = False"
| "jsonTruthy (JBool b) = b"
| "jsonTruthy (JNum r) = (r \<noteq> str ''0'' \<and> r \<noteq> str ''NaN'')"
| "jsonTruthy (JStr s) = (s \<noteq> [])"
| "jsonTruthy (JArr xs) = True"
| "jsonTruthy (JObj kvs) = True"

fun truthy :: "jsval \<Rightarrow> bool" where
  "truthy Undefined = False"
| "truthy (Json j) = jsonTruthy j"
| "truthy (Builtin f) = True"
| "truthy ObjectPrototype = True"
| "truthy ArrayPrototype = True"

fun typeof :: "jsval \<Rightarrow> jsstring" where
  "typeof Undefined = str ''undefined''"
| "typeof (Json JNull) = str ''object''"
| "typeof (Json (JBool b)) = str ''boolean''"
| "typeof (Json (JNum r)) = str ''number''"
| "typeof (Json (JStr s)) = str ''string''"
| "typeof (Json (JArr xs)) = str ''object''"
| "typeof (Json (JObj kvs)) = str ''object''"
| "typeof (Builtin f) = str ''function''"
| "typeof ObjectPrototype = str ''object''"
| "typeof ArrayPrototype = str ''object''"

text \<open>
  A property read \<^verbatim>\<open>obj[key]\<close> on a plain object: the own property if there is one,
  else what the object inherits from \<^verbatim>\<open>Object.prototype\<close>: its methods, and under
  \<^verbatim>\<open>__proto__\<close> the prototype itself.
\<close>

definition objectPrototypeMethods :: "jsstring list" where
  "objectPrototypeMethods =
     map str
       [''constructor'', ''hasOwnProperty'', ''isPrototypeOf'', ''propertyIsEnumerable'',
        ''toLocaleString'', ''toString'', ''valueOf'', ''__defineGetter__'',
        ''__defineSetter__'', ''__lookupGetter__'', ''__lookupSetter__'']"

definition inherited :: "jsstring \<Rightarrow> jsval" where
  "inherited key =
     (if key = str ''__proto__'' then ObjectPrototype
      else if key \<in> set objectPrototypeMethods then Builtin key
      else Undefined)"

definition objGet :: "jsobject \<Rightarrow> jsstring \<Rightarrow> jsval" where
  "objGet obj key = (case map_of obj key of Some v \<Rightarrow> Json v | None \<Rightarrow> inherited key)"

text \<open>
  An assignment \<^verbatim>\<open>obj[key] = v\<close> on a plain object, for the values the source writes
  (strings). It sets the own property, with one exception: where the object has no own
  property \<^verbatim>\<open>__proto__\<close>, that key reaches the setter inherited from
  \<^verbatim>\<open>Object.prototype\<close>, which ignores a string and creates no property.
\<close>

definition objSet :: "jsobject \<Rightarrow> jsstring \<Rightarrow> json \<Rightarrow> jsobject" where
  "objSet obj key v =
     (if key = str ''__proto__'' \<and> map_of obj key = None then obj
      else AList.update key v obj)"

text \<open>
  \<^verbatim>\<open>String(v)\<close>, as a template literal and \<^verbatim>\<open>join\<close> apply it. An array prints its
  elements separated by commas, \<^verbatim>\<open>null\<close> elements as nothing. An object prints as
  \<^verbatim>\<open>[object Object]\<close> through the inherited \<^verbatim>\<open>toString\<close>; an own property of that name
  (never a function in JSON) hides it, and the conversion throws.
\<close>

fun jsToString :: "json \<Rightarrow> error + jsstring"
  and joinElems :: "jsstring \<Rightarrow> json list \<Rightarrow> error + jsstring" where
  "jsToString JNull = Inr (str ''null'')"
| "jsToString (JBool b) = Inr (if b then str ''true'' else str ''false'')"
| "jsToString (JNum r) = Inr r"
| "jsToString (JStr s) = Inr s"
| "jsToString (JArr xs) = joinElems (str '','') xs"
| "jsToString (JObj kvs) =
     (if str ''toString'' \<in> set (map fst kvs) then Inl TypeError
      else Inr (str ''[object Object]''))"
| "joinElems sep [] = Inr []"
| "joinElems sep (x # xs) =
     (case (if x = JNull then Inr [] else jsToString x) of
        Inl e \<Rightarrow> Inl e
      | Inr s \<Rightarrow>
          (if xs = [] then Inr s
           else (case joinElems sep xs of Inl e \<Rightarrow> Inl e | Inr r \<Rightarrow> Inr (s @ sep @ r))))"

section \<open>The runtime\<close>

text \<open>
  Two parts of the language are not fixed by the source and are taken from the runtime,
  as the record \<open>runtime\<close>.

  The first is the case mapping of strings that are not ASCII. On a string of ASCII
  code units \<^verbatim>\<open>toUpperCase\<close> replaces the letters \<^verbatim>\<open>a\<close> to \<^verbatim>\<open>z\<close> by \<^verbatim>\<open>A\<close> to \<^verbatim>\<open>Z\<close> and
  leaves every other code unit as it is, and \<^verbatim>\<open>toLowerCase\<close> does the converse. On
  every other string the result follows the Unicode tables of the runtime, can differ in
  length from the string (the upper case of \<^verbatim>\<open>U+00DF\<close> is \<^verbatim>\<open>SS\<close>) and depends on more than
  one code unit at a time: \<open>stringToUpperCase\<close> and \<open>stringToLowerCase\<close> stand for
  \<^verbatim>\<open>String.prototype.toUpperCase\<close> and \<^verbatim>\<open>String.prototype.toLowerCase\<close> there, and
  nothing is assumed of them.

  The second is the array. \<^verbatim>\<open>ensureDictShape\<close> accepts an array where the dictionary is
  to have an object, and the lookups and the merge then read and write properties of
  that array. The state of an array is a value of the type \<open>'arr\<close>; \<open>arrayOfJson\<close> is the
  array \<^verbatim>\<open>JSON.parse\<close> makes of its elements, \<open>arrayGet\<close> is a property read
  \<^verbatim>\<open>arr[key]\<close> (an element, the length, a property set earlier, a method of
  \<^verbatim>\<open>Array.prototype\<close>, ...) and \<open>arraySet\<close> an assignment \<^verbatim>\<open>arr[key] = v\<close>, which can throw
  (a \<^verbatim>\<open>RangeError\<close> for the key \<^verbatim>\<open>length\<close>). Nothing is assumed of them either.
\<close>

record 'arr runtime =
  stringToUpperCase :: "jsstring \<Rightarrow> jsstring"
  stringToLowerCase :: "jsstring \<Rightarrow> jsstring"
  arrayOfJson :: "json list \<Rightarrow> 'arr"
  arrayGet :: "'arr \<Rightarrow> jsstring \<Rightarrow> jsval"
  arraySet :: "'arr \<Rightarrow> jsstring \<Rightarrow> json \<Rightarrow> error + 'arr"

definition isAscii :: "jsstring \<Rightarrow> bool" where
  "isAscii s = list_all (\<lambda>c. c < 0x80) s"

definition asciiUpperChar :: "codeunit \<Rightarrow> codeunit" where
  "asciiUpperChar c = (if isLowerLetter c then c - 0x20 else c)"

definition asciiLowerChar :: "codeunit \<Rightarrow> codeunit" where
  "asciiLowerChar c = (if isUpperLetter c then c + 0x20 else c)"

text \<open>\<^verbatim>\<open>s.toUpperCase()\<close> and \<^verbatim>\<open>s.toLowerCase()\<close>.\<close>

definition toUpperCase :: "'arr runtime \<Rightarrow> jsstring \<Rightarrow> jsstring" where
  "toUpperCase rt s = (if isAscii s then map asciiUpperChar s else stringToUpperCase rt s)"

definition toLowerCase :: "'arr runtime \<Rightarrow> jsstring \<Rightarrow> jsstring" where
  "toLowerCase rt s = (if isAscii s then map asciiLowerChar s else stringToLowerCase rt s)"

section \<open>The active dictionary and the switches\<close>

text \<open>
  The values \<^verbatim>\<open>meta\<close>, \<^verbatim>\<open>words\<close> and \<^verbatim>\<open>phrases\<close> of the active dictionary are objects:
  plain objects, given by their own properties, or arrays.
\<close>

datatype 'arr container =
    PlainObject jsobject
  | ArrayObject 'arr

definition containerGet :: "'arr runtime \<Rightarrow> 'arr container \<Rightarrow> jsstring \<Rightarrow> jsval" where
  "containerGet rt c key =
     (case c of PlainObject obj \<Rightarrow> objGet obj key | ArrayObject a \<Rightarrow> arrayGet rt a key)"

definition containerSet ::
  "'arr runtime \<Rightarrow> 'arr container \<Rightarrow> jsstring \<Rightarrow> json \<Rightarrow> error + 'arr container" where
  "containerSet rt c key v =
     (case c of
        PlainObject obj \<Rightarrow> Inr (PlainObject (objSet obj key v))
      | ArrayObject a \<Rightarrow>
          (case arraySet rt a key v of Inl e \<Rightarrow> Inl e | Inr a' \<Rightarrow> Inr (ArrayObject a')))"

text \<open>
  \<^verbatim>\<open>activeDict\<close> is \<^verbatim>\<open>null\<close> until \<^verbatim>\<open>setActiveDict\<close> stores what \<^verbatim>\<open>ensureDictShape\<close>
  returns: an object whose \<^verbatim>\<open>meta\<close>, \<^verbatim>\<open>words\<close> and \<^verbatim>\<open>phrases\<close> are objects. The translator
  reads and writes no other property of it, so the dictionary is the record of these
  three, and \<^verbatim>\<open>activeDict\<close> is passed as a \<open>dict option\<close> (\<open>None\<close> for \<^verbatim>\<open>null\<close>). The two
  check boxes \<^verbatim>\<open>els.preferPhrases.checked\<close> and \<^verbatim>\<open>els.markUnknown.checked\<close> are passed as a
  record too.
\<close>

record 'arr dict =
  meta :: "'arr container"
  words :: "'arr container"
  phrases :: "'arr container"

record flags =
  preferPhrases :: bool
  markUnknown :: bool

text \<open>
  \<^verbatim>\<open>ensureDictShape\<close> is called on what \<^verbatim>\<open>JSON.parse\<close> or \<^verbatim>\<open>res.json()\<close> returned, a JSON
  value, and on the value of \<^verbatim>\<open>activeDict\<close>, which is \<^verbatim>\<open>null\<close> (the JSON value \<open>JNull\<close>) or
  a dictionary this function returned before.

  \<open>shapePart\<close> is \<^verbatim>\<open>x && typeof x === "object" ? x : {}\<close> for what the read of \<^verbatim>\<open>meta\<close>,
  \<^verbatim>\<open>words\<close> or \<^verbatim>\<open>phrases\<close> gave. On a parsed object such a read gives an own property or
  \<^verbatim>\<open>undefined\<close> (no object inherits a property of one of these names), so that the
  truthy objects met here are the JSON objects and the JSON arrays. A parsed array has
  none of the three properties and gets three new empty objects. A value that is
  not an object gives a new dictionary. On a dictionary returned before, every part is
  an object already and is stored back as it is.
\<close>

datatype 'arr dictValue =
    Parsed json
  | Active "'arr dict"

definition shapePart :: "'arr runtime \<Rightarrow> jsval \<Rightarrow> 'arr container" where
  "shapePart rt x =
     (if truthy x \<and> typeof x = str ''object'' then
        (case x of
           Json (JObj kvs) \<Rightarrow> PlainObject kvs
         | Json (JArr xs) \<Rightarrow> ArrayObject (arrayOfJson rt xs)
         | _ \<Rightarrow> PlainObject [])
      else PlainObject [])"

definition emptyDict :: "'arr dict" where
  "emptyDict = \<lparr>meta = PlainObject [], words = PlainObject [], phrases = PlainObject []\<rparr>"

definition ensureDictShape :: "'arr runtime \<Rightarrow> 'arr dictValue \<Rightarrow> 'arr dict" where
  "ensureDictShape rt dict =
     (case dict of
        Parsed (JObj kvs) \<Rightarrow>
          \<lparr>meta = shapePart rt (objGet kvs (str ''meta'')),
           words = shapePart rt (objGet kvs (str ''words'')),
           phrases = shapePart rt (objGet kvs (str ''phrases''))\<rparr>
      | Parsed _ \<Rightarrow> emptyDict
      | Active d \<Rightarrow> d)"

section \<open>Lookup\<close>

text \<open>
  \<^verbatim>\<open>entry.l\<close> on a value that is not \<^verbatim>\<open>null\<close> or \<^verbatim>\<open>undefined\<close>: the property \<^verbatim>\<open>l\<close>, own or
  inherited. A plain object can have it; a string, a number, a boolean, an array, a
  function and the two prototypes have no property of that name.
\<close>

definition primaryField :: "jsval \<Rightarrow> jsval" where
  "primaryField entry =
     (case entry of Json (JObj kvs) \<Rightarrow> objGet kvs (str ''l'') | _ \<Rightarrow> Undefined)"

text \<open>
  \<^verbatim>\<open>lookupWord\<close>. The entry is \<^verbatim>\<open>activeDict?.words?.[key]\<close>. The result \<^verbatim>\<open>null\<close> is \<open>JNull\<close>;
  what is returned otherwise is a string entry or a truthy \<^verbatim>\<open>entry.l\<close>, in both cases a
  JSON value of the dictionary.
\<close>

definition lookupWord :: "'arr runtime \<Rightarrow> 'arr dict option \<Rightarrow> jsstring \<Rightarrow> json" where
  "lookupWord rt activeDict englishWord =
     (let key = toLowerCase rt englishWord;
          entry = (case activeDict of
                     None \<Rightarrow> Undefined
                   | Some d \<Rightarrow> containerGet rt (words d) key)
      in if \<not> truthy entry then JNull
         else if typeof entry = str ''string'' then (case entry of Json v \<Rightarrow> v | _ \<Rightarrow> JNull)
         else if typeof entry = str ''object'' \<and> truthy (primaryField entry)
         then (case primaryField entry of Json v \<Rightarrow> v | _ \<Rightarrow> JNull)
         else JNull)"

definition lookupPhrase :: "'arr runtime \<Rightarrow> 'arr dict option \<Rightarrow> jsstring \<Rightarrow> jsval" where
  "lookupPhrase rt activeDict englishText =
     (let key = toLowerCase rt (normalizeSpaces englishText);
          phrase = (case activeDict of
                      None \<Rightarrow> Undefined
                    | Some d \<Rightarrow> containerGet rt (phrases d) key)
      in if \<not> truthy phrase then Json JNull else phrase)"

section \<open>Casing transfer\<close>

definition isAllCaps :: "'arr runtime \<Rightarrow> jsstring \<Rightarrow> bool" where
  "isAllCaps rt s = (length s > 1 \<and> s = toUpperCase rt s)"

definition isTitleCase :: "'arr runtime \<Rightarrow> jsstring \<Rightarrow> bool" where
  "isTitleCase rt s =
     (case s of
        [] \<Rightarrow> False
      | c # cs \<Rightarrow> [c] = toUpperCase rt [c] \<and> cs = toLowerCase rt cs)"

text \<open>
  \<^verbatim>\<open>applyCasing\<close>. A falsy translation is returned as it is. Past that test a
  translation that is not a string has no \<^verbatim>\<open>toUpperCase\<close>, no \<^verbatim>\<open>toLowerCase\<close> and no
  usable \<^verbatim>\<open>slice\<close>: each of the three casing branches throws a \<^verbatim>\<open>TypeError\<close> on it.
\<close>

definition applyCasing :: "'arr runtime \<Rightarrow> jsstring \<Rightarrow> json \<Rightarrow> error + json" where
  "applyCasing rt sourceToken translatedToken =
     (if \<not> jsonTruthy translatedToken then Inr translatedToken
      else if isAllCaps rt sourceToken then
        (case translatedToken of
           JStr t \<Rightarrow> Inr (JStr (toUpperCase rt t))
         | _ \<Rightarrow> Inl TypeError)
      else if isTitleCase rt sourceToken then
        (case translatedToken of
           JStr (c # cs) \<Rightarrow> Inr (JStr (toUpperCase rt [c] @ toLowerCase rt cs))
         | _ \<Rightarrow> Inl TypeError)
      else if sourceToken = toLowerCase rt sourceToken then
        (case translatedToken of
           JStr t \<Rightarrow> Inr (JStr (toLowerCase rt t))
         | _ \<Rightarrow> Inl TypeError)
      else Inr translatedToken)"

section \<open>Translation\<close>

definition endsWith :: "jsstring \<Rightarrow> jsstring \<Rightarrow> bool" where
  "endsWith s suffix =
     (length suffix \<le> length s \<and> drop (length s - length suffix) s = suffix)"

text \<open>
  The possessive test \<^verbatim>\<open>base.endsWith("'s") && base.length > 2\<close> and the lookup key
  \<^verbatim>\<open>baseWord\<close>, which is \<^verbatim>\<open>base.slice(0, -2)\<close> for a possessive and \<^verbatim>\<open>base\<close> otherwise.
\<close>

definition isPossessive :: "jsstring \<Rightarrow> bool" where
  "isPossessive base = (endsWith base (apostrophe # str ''s'') \<and> length base > 2)"

definition baseWordOf :: "jsstring \<Rightarrow> jsstring" where
  "baseWordOf base = (if isPossessive base then take (length base - 2) base else base)"

text \<open>The callback of \<^verbatim>\<open>tokens.map\<close>: what one token becomes.\<close>

definition translateToken ::
  "'arr runtime \<Rightarrow> 'arr dict option \<Rightarrow> flags \<Rightarrow> jsstring \<Rightarrow> error + json" where
  "translateToken rt activeDict fl tok =
     (if isWordToken tok then
        (let base = toLowerCase rt tok;
             found = lookupWord rt activeDict (baseWordOf base)
         in if \<not> jsonTruthy found then
              Inr (JStr (if markUnknown fl then str ''['' @ tok @ str '']'' else tok))
            else (case applyCasing rt tok found of
                    Inl e \<Rightarrow> Inl e
                  | Inr translated \<Rightarrow>
                      if isPossessive base then
                        (case jsToString translated of
                           Inl e \<Rightarrow> Inl e
                         | Inr s \<Rightarrow> Inr (JStr (s @ str ''-de'')))
                      else Inr translated))
      else Inr (JStr tok))"

text \<open>\<^verbatim>\<open>tokens.map(...)\<close>: the first token that throws ends the loop.\<close>

fun mapTokens :: "(jsstring \<Rightarrow> error + json) \<Rightarrow> jsstring list \<Rightarrow> error + json list" where
  "mapTokens f [] = Inr []"
| "mapTokens f (tok # toks) =
     (case f tok of
        Inl e \<Rightarrow> Inl e
      | Inr v \<Rightarrow> (case mapTokens f toks of Inl e \<Rightarrow> Inl e | Inr vs \<Rightarrow> Inr (v # vs)))"

text \<open>Step 2 of \<^verbatim>\<open>translateText\<close>: tokenize, translate each token, \<^verbatim>\<open>join("")\<close>.\<close>

definition wordByWord ::
  "'arr runtime \<Rightarrow> 'arr dict option \<Rightarrow> flags \<Rightarrow> jsstring \<Rightarrow> error + jsstring" where
  "wordByWord rt activeDict fl englishText =
     (case mapTokens (translateToken rt activeDict fl) (tokenizeKeepPunct englishText) of
        Inl e \<Rightarrow> Inl e
      | Inr out \<Rightarrow> joinElems [] out)"

definition translateText ::
  "'arr runtime \<Rightarrow> 'arr dict option \<Rightarrow> flags \<Rightarrow> jsstring \<Rightarrow> error + jsval" where
  "translateText rt activeDict fl englishText =
     (if activeDict = None then Inr (Json (JStr englishText))
      else if preferPhrases fl \<and> truthy (lookupPhrase rt activeDict englishText)
      then Inr (lookupPhrase rt activeDict englishText)
      else (case wordByWord rt activeDict fl englishText of
              Inl e \<Rightarrow> Inl e
            | Inr joined \<Rightarrow>
                if \<not> preferPhrases fl \<and> truthy (lookupPhrase rt activeDict englishText)
                then Inr (lookupPhrase rt activeDict englishText)
                else Inr (Json (JStr joined))))"

section \<open>Bulk additions\<close>

text \<open>\<^verbatim>\<open>raw.split("\n")\<close>\<close>

fun splitLines :: "jsstring \<Rightarrow> jsstring list" where
  "splitLines [] = [[]]"
| "splitLines (c # cs) =
     (if c = 0x0A then [] # splitLines cs
      else (case splitLines cs of [] \<Rightarrow> [[c]] | l # ls \<Rightarrow> (c # l) # ls))"

text \<open>
  \<^verbatim>\<open>line.match(/^(.+?)\s*=\s*(.+)$/)\<close>, by the backtracking of the pattern.
  \<open>matchRight\<close> is \<^verbatim>\<open>\s*(.+)$\<close>: the greedy \<^verbatim>\<open>\s*\<close> first takes a white space character and
  gives it back when the rest fails; \<^verbatim>\<open>(.+)$\<close> needs the whole non-empty remainder free
  of line terminators. \<open>matchEquals\<close> is \<^verbatim>\<open>\s*=\<close> followed by \<open>matchRight\<close>. \<open>matchLeft\<close>
  is the lazy group \<^verbatim>\<open>(.+?)\<close>: it tries the rest of the pattern after each character it
  has taken and takes one more (never a line terminator) when that fails. The result is
  the pair of the two groups.
\<close>

definition dot :: "codeunit \<Rightarrow> bool" where
  "dot c = (\<not> isLineTerminator c)"

fun matchRight :: "jsstring \<Rightarrow> jsstring option" where
  "matchRight [] = None"
| "matchRight (c # cs) =
     (let here = (if list_all dot (c # cs) then Some (c # cs) else None) in
      if isSpace c then (case matchRight cs of Some r \<Rightarrow> Some r | None \<Rightarrow> here)
      else here)"

fun matchEquals :: "jsstring \<Rightarrow> jsstring option" where
  "matchEquals [] = None"
| "matchEquals (c # cs) =
     (let here = (if c = 0x3D then matchRight cs else None) in
      if isSpace c then (case matchEquals cs of Some r \<Rightarrow> Some r | None \<Rightarrow> here)
      else here)"

fun matchLeft :: "jsstring \<Rightarrow> jsstring \<Rightarrow> (jsstring \<times> jsstring) option" where
  "matchLeft group1 [] = None"
| "matchLeft group1 (c # cs) =
     (case matchEquals (c # cs) of
        Some group2 \<Rightarrow> Some (group1, group2)
      | None \<Rightarrow> if dot c then matchLeft (group1 @ [c]) cs else None)"

definition matchLine :: "jsstring \<Rightarrow> (jsstring \<times> jsstring) option" where
  "matchLine line =
     (case line of [] \<Rightarrow> None | c # cs \<Rightarrow> if dot c then matchLeft [c] cs else None)"

text \<open>
  \<^verbatim>\<open>parseQuickAddLines\<close>. \<open>addLine\<close> is the body of its loop; \<^verbatim>\<open>adds\<close> starts as two empty
  plain objects.
\<close>

record adds =
  addsWords :: jsobject
  addsPhrases :: jsobject

definition addLine :: "'arr runtime \<Rightarrow> adds \<Rightarrow> jsstring \<Rightarrow> adds" where
  "addLine rt a line =
     (case matchLine line of
        None \<Rightarrow> a
      | Some (m1, m2) \<Rightarrow>
          (let left = toLowerCase rt (normalizeSpaces m1);
               right = normalizeSpaces m2
           in if left = [] \<or> right = [] then a
              else if 0x20 \<in> set left
              then a\<lparr>addsPhrases := objSet (addsPhrases a) left (JStr right)\<rparr>
              else a\<lparr>addsWords := objSet (addsWords a) left (JStr right)\<rparr>))"

definition parseQuickAddLines :: "'arr runtime \<Rightarrow> jsstring \<Rightarrow> adds" where
  "parseQuickAddLines rt raw =
     foldl (addLine rt) \<lparr>addsWords = [], addsPhrases = []\<rparr>
       (filter (\<lambda>l. l \<noteq> []) (map trim (splitLines raw)))"

text \<open>
  \<^verbatim>\<open>Object.entries\<close> of a plain object lists the own properties: first those whose key is
  an array index (the decimal numeral, without leading zeros, of a number below
  \<^verbatim>\<open>2^32 - 1\<close>), in ascending order of the index, then the others in the order in which
  they were created, which is the order of the association list.
\<close>

definition isDigit :: "codeunit \<Rightarrow> bool" where
  "isDigit c = (0x30 \<le> c \<and> c \<le> 0x39)"

definition digitsValue :: "jsstring \<Rightarrow> nat" where
  "digitsValue s = foldl (\<lambda>n c. 10 * n + (c - 0x30)) 0 s"

definition arrayIndex :: "jsstring \<Rightarrow> nat option" where
  "arrayIndex key =
     (if key \<noteq> [] \<and> list_all isDigit key \<and> (key = str ''0'' \<or> 0x30 < hd key)
         \<and> digitsValue key < 4294967295
      then Some (digitsValue key) else None)"

definition objectEntries :: "jsobject \<Rightarrow> (jsstring \<times> json) list" where
  "objectEntries obj =
     sort_key (\<lambda>(k, v). case arrayIndex k of Some i \<Rightarrow> i | None \<Rightarrow> 0)
       (filter (\<lambda>(k, v). arrayIndex k \<noteq> None) obj)
     @ filter (\<lambda>(k, v). arrayIndex k = None) obj"

text \<open>
  One loop of \<^verbatim>\<open>mergeAddsIntoDict\<close>: the assignments \<^verbatim>\<open>target[k] = v\<close> in the order of the
  entries, up to the first that throws. The result is the target as the loop leaves it
  and the exception, if any.
\<close>

fun mergeLoop ::
  "'arr runtime \<Rightarrow> 'arr container \<Rightarrow> (jsstring \<times> json) list \<Rightarrow> 'arr container \<times> error option"
  where
  "mergeLoop rt target [] = (target, None)"
| "mergeLoop rt target ((k, v) # kvs) =
     (case containerSet rt target k v of
        Inl e \<Rightarrow> (target, Some e)
      | Inr target' \<Rightarrow> mergeLoop rt target' kvs)"

text \<open>
  \<^verbatim>\<open>mergeAddsIntoDict\<close>. The result is the value of \<^verbatim>\<open>activeDict\<close> after the call and the
  exception the call ends with, if any. \<^verbatim>\<open>dict\<close> is the active dictionary itself, or a
  new one where none is active, and the loops write into its \<^verbatim>\<open>words\<close> and \<^verbatim>\<open>phrases\<close>.
  Where a loop throws, what was written so far stays written in the active dictionary,
  and a new dictionary is lost; where both loops end, \<^verbatim>\<open>setActiveDict\<close> makes \<^verbatim>\<open>dict\<close> the
  active dictionary.
\<close>

definition mergeAddsIntoDict ::
  "'arr runtime \<Rightarrow> 'arr dict option \<Rightarrow> adds \<Rightarrow> 'arr dict option \<times> error option" where
  "mergeAddsIntoDict rt activeDict a =
     (let dict = ensureDictShape rt
                   (case activeDict of None \<Rightarrow> Parsed JNull | Some d \<Rightarrow> Active d);
          (w, thrown1) = mergeLoop rt (words dict) (objectEntries (addsWords a));
          dict1 = dict\<lparr>words := w\<rparr>
      in case thrown1 of
           Some e \<Rightarrow> (map_option (\<lambda>d. dict1) activeDict, Some e)
         | None \<Rightarrow>
             (let (p, thrown2) = mergeLoop rt (phrases dict1) (objectEntries (addsPhrases a));
                  dict2 = dict1\<lparr>phrases := p\<rparr>
              in case thrown2 of
                   Some e \<Rightarrow> (map_option (\<lambda>d. dict2) activeDict, Some e)
                 | None \<Rightarrow> (Some dict2, None)))"

section \<open>Notions of the specification\<close>

text \<open>
  The definitions below are not code of the source: they say, in the words of the
  specification, what the statements are about.
\<close>

text \<open>
  The rules of the casing transfer, in the words of the specification. A string is
  entirely uppercase when uppercasing does not change it, entirely lowercase when
  lowercasing does not change it; a token is title-case when it is not empty, its first
  character is uppercase and the rest is entirely lowercase.
\<close>

definition entirelyUppercase :: "'arr runtime \<Rightarrow> jsstring \<Rightarrow> bool" where
  "entirelyUppercase rt s = (toUpperCase rt s = s)"

definition entirelyLowercase :: "'arr runtime \<Rightarrow> jsstring \<Rightarrow> bool" where
  "entirelyLowercase rt s = (toLowerCase rt s = s)"

definition titleCase_spec :: "'arr runtime \<Rightarrow> jsstring \<Rightarrow> bool" where
  "titleCase_spec rt s =
     (s \<noteq> [] \<and> entirelyUppercase rt [hd s] \<and> entirelyLowercase rt (tl s))"

definition casingTransfer_spec :: "'arr runtime \<Rightarrow> jsstring \<Rightarrow> jsstring \<Rightarrow> jsstring" where
  "casingTransfer_spec rt tok t =
     (if entirelyUppercase rt tok \<and> length tok > 1 then toUpperCase rt t
      else if titleCase_spec rt tok then toUpperCase rt [hd t] @ toLowerCase rt (tl t)
      else if entirelyLowercase rt tok then toLowerCase rt t
      else t)"

text \<open>
  What an object of the dictionary has stored under a key: the own property of a plain
  object, and the JSON value an array gives for the key.
\<close>

definition stored :: "'arr runtime \<Rightarrow> 'arr container \<Rightarrow> jsstring \<Rightarrow> json option" where
  "stored rt c key =
     (case c of
        PlainObject obj \<Rightarrow> map_of obj key
      | ArrayObject a \<Rightarrow> (case arrayGet rt a key of Json v \<Rightarrow> Some v | _ \<Rightarrow> None))"

text \<open>
  The translation a stored entry of \<^verbatim>\<open>words\<close> stands for: a non-empty string itself, and
  the truthy primary field \<^verbatim>\<open>l\<close> of a structured entry; \<open>JNull\<close> where there is none.
\<close>

definition storedTranslation :: "json option \<Rightarrow> json" where
  "storedTranslation e =
     (case e of
        Some (JStr s) \<Rightarrow> if s \<noteq> [] then JStr s else JNull
      | Some (JObj entry) \<Rightarrow>
          (case map_of entry (str ''l'') of
             Some v \<Rightarrow> if jsonTruthy v then v else JNull
           | None \<Rightarrow> JNull)
      | _ \<Rightarrow> JNull)"

text \<open>
  The entries the claim speaks of: the empty string, and a structured entry whose primary
  field is absent or the empty string.
\<close>

fun emptyWordEntry :: "json \<Rightarrow> bool" where
  "emptyWordEntry (JStr s) = (s = [])"
| "emptyWordEntry (JObj entry) =
     (map_of entry (str ''l'') = None \<or> map_of entry (str ''l'') = Some (JStr []))"
| "emptyWordEntry _ = False"

text \<open>
  The dictionaries on which translation cannot throw: \<^verbatim>\<open>words\<close> and \<^verbatim>\<open>phrases\<close> are plain
  objects, every structured entry of \<^verbatim>\<open>words\<close> has a primary field \<^verbatim>\<open>l\<close> that is absent, a
  string, or falsy, and every value of \<^verbatim>\<open>phrases\<close> is a string or falsy. Entries of
  \<^verbatim>\<open>words\<close> of any other shape (numbers, arrays, \<^verbatim>\<open>null\<close>) are allowed: they are misses.
\<close>

fun stringOrFalsy :: "json \<Rightarrow> bool" where
  "stringOrFalsy (JStr s) = True"
| "stringOrFalsy v = (\<not> jsonTruthy v)"

fun wordEntryOk :: "json \<Rightarrow> bool" where
  "wordEntryOk (JObj entry) =
     (case map_of entry (str ''l'') of None \<Rightarrow> True | Some v \<Rightarrow> stringOrFalsy v)"
| "wordEntryOk v = True"

definition typedWords :: "'arr dict \<Rightarrow> bool" where
  "typedWords d =
     (case words d of
        PlainObject obj \<Rightarrow> list_all (\<lambda>(k, v). wordEntryOk v) obj
      | ArrayObject a \<Rightarrow> False)"

definition typedPhrases :: "'arr dict \<Rightarrow> bool" where
  "typedPhrases d =
     (case phrases d of
        PlainObject obj \<Rightarrow> list_all (\<lambda>(k, v). stringOrFalsy v) obj
      | ArrayObject a \<Rightarrow> False)"

text \<open>The property names every plain object inherits.\<close>

definition inheritedNames :: "jsstring list" where
  "inheritedNames = str ''__proto__'' # objectPrototypeMethods"

text \<open>The trimmed, non-empty lines \<^verbatim>\<open>parseQuickAddLines\<close> loops over.\<close>

definition quickAddLines :: "jsstring \<Rightarrow> jsstring list" where
  "quickAddLines raw = filter (\<lambda>l. l \<noteq> []) (map trim (splitLines raw))"

text \<open>What one line contributes: whether it is a phrase, its key and its value.\<close>

definition lineEntry :: "'arr runtime \<Rightarrow> jsstring \<Rightarrow> (bool \<times> jsstring \<times> jsstring) option" where
  "lineEntry rt line =
     (case matchLine line of
        None \<Rightarrow> None
      | Some (m1, m2) \<Rightarrow>
          (let left = toLowerCase rt (normalizeSpaces m1);
               right = normalizeSpaces m2
           in if left = [] \<or> right = [] then None
              else Some (0x20 \<in> set left, left, right)))"

definition namesWord :: "'arr runtime \<Rightarrow> jsstring \<Rightarrow> jsstring \<Rightarrow> bool" where
  "namesWord rt k line =
     (case lineEntry rt line of Some (isPhrase, k', v) \<Rightarrow> \<not> isPhrase \<and> k' = k | None \<Rightarrow> False)"

definition namesPhrase :: "'arr runtime \<Rightarrow> jsstring \<Rightarrow> jsstring \<Rightarrow> bool" where
  "namesPhrase rt k line =
     (case lineEntry rt line of Some (isPhrase, k', v) \<Rightarrow> isPhrase \<and> k' = k | None \<Rightarrow> False)"

definition mergeInto :: "jsobject \<Rightarrow> (jsstring \<times> json) list \<Rightarrow> jsobject" where
  "mergeInto obj kvs = foldl (\<lambda>obj (k, v). objSet obj k v) obj kvs"

section \<open>Example dictionaries\<close>

definition exampleWords :: "'arr dict" where
  "exampleWords =
     \<lparr>meta = PlainObject [],
      words = PlainObject
        [(str ''hello'', JStr (str ''Ya'')),
         (str ''moon'', JObj [(str ''l'', JStr (str ''muna''))]),
         (str ''void'', JStr []),
         (str ''sun'', JObj [(str ''note'', JStr (str ''x''))]),
         (str ''five'', JNum (str ''5''))],
      phrases = PlainObject []\<rparr>"

definition goodMorningDict :: "'arr dict" where
  "goodMorningDict =
     \<lparr>meta = PlainObject [],
      words = PlainObject [(str ''good'', JStr (str ''yara''))],
      phrases = PlainObject [(str ''good morning'', JStr (str ''yara muna''))]\<rparr>"

definition emptyPhraseDict :: "'arr dict" where
  "emptyPhraseDict =
     \<lparr>meta = PlainObject [], words = PlainObject [],
      phrases = PlainObject [(str ''good morning'', JStr [])]\<rparr>"

definition emptyEntriesDict :: "'arr dict" where
  "emptyEntriesDict =
     \<lparr>meta = PlainObject [],
      words = PlainObject
        [(str ''void'', JStr []),
         (str ''sun'', JObj [(str ''note'', JStr (str ''x''))]),
         (str ''moon'', JObj [(str ''l'', JStr [])])],
      phrases = PlainObject [(str ''void sun'', JStr [])]\<rparr>"

definition numberEntryDict :: "'arr dict" where
  "numberEntryDict =
     \<lparr>meta = PlainObject [],
      words = PlainObject [(str ''hello'', JObj [(str ''l'', JNum (str ''5''))])],
      phrases = PlainObject []\<rparr>"

definition numberEntryPhraseDict :: "'arr dict" where
  "numberEntryPhraseDict =
     \<lparr>meta = PlainObject [],
      words = PlainObject [(str ''hello'', JObj [(str ''l'', JNum (str ''5''))])],
      phrases = PlainObject [(str ''hello'', JStr (str ''ya''))]\<rparr>"



section \<open>Termination of the tokenizer\<close>

lemma matchWord_concat: "matchWord s = Some (tok, rest) \<Longrightarrow> tok @ rest = s \<and> tok \<noteq> []"
proof -
  assume m: "matchWord s = Some (tok, rest)"
  have s: "takeWhile isLetter s @ dropWhile isLetter s = s"
    by (rule takeWhile_dropWhile_id)
  show ?thesis
  proof (cases "dropWhile isLetter s")
    case Nil
    with m s show ?thesis by (auto simp: matchWord_def Let_def split: if_splits)
  next
    case (Cons q rest')
    have r: "takeWhile isLetter rest' @ dropWhile isLetter rest' = rest'"
      by (rule takeWhile_dropWhile_id)
    have s': "takeWhile isLetter s @ q # rest' = s"
      using s Cons by simp
    show ?thesis
    proof (cases "q = apostrophe \<and> takeWhile isLetter rest' \<noteq> []")
      case True
      with m Cons have "tok = takeWhile isLetter s @ q # takeWhile isLetter rest'"
        and "rest = dropWhile isLetter rest'" and "takeWhile isLetter s \<noteq> []"
        by (auto simp: matchWord_def Let_def split: if_splits)
      with r s' show ?thesis by simp
    next
      case False
      with m Cons have "tok = takeWhile isLetter s" and "rest = q # rest'"
        and "takeWhile isLetter s \<noteq> []"
        by (auto simp: matchWord_def Let_def split: if_splits)
      with s' show ?thesis by simp
    qed
  qed
qed

lemma matchWord_shorter: "matchWord s = Some (tok, rest) \<Longrightarrow> length rest < length s"
proof -
  assume "matchWord s = Some (tok, rest)"
  then have "tok @ rest = s" and "tok \<noteq> []"
    using matchWord_concat by blast+
  then show ?thesis by (cases tok) auto
qed

lemma matchSep_shorter: "matchSep s = Some (tok, rest) \<Longrightarrow> length rest < length s"
  by (cases s) (auto simp: matchSep_def Let_def less_Suc_eq_le length_dropWhile_le
      split: if_splits)

lemma matchToken_shorter: "matchToken s = Some (tok, rest) \<Longrightarrow> length rest < length s"
  by (auto simp: matchToken_def matchWord_shorter matchSep_shorter split: option.splits)

termination tokenizeKeepPunct
  by (relation "measure length") (auto simp: matchToken_shorter)

declare tokenizeKeepPunct.simps [simp del]

section \<open>Tokenizer round trip\<close>

lemma matchSep_concat: "matchSep s = Some (tok, rest) \<Longrightarrow> tok @ rest = s"
  by (auto simp: matchSep_def Let_def split: if_splits)

lemma matchToken_concat: "matchToken s = Some (tok, rest) \<Longrightarrow> tok @ rest = s"
  by (auto simp: matchToken_def matchWord_concat matchSep_concat split: option.splits)

lemma matchToken_Cons: "matchToken (c # cs) \<noteq> None"
  by (cases "isLetter c") (auto simp: matchToken_def matchWord_def matchSep_def Let_def
      split: option.splits list.splits)

lemma concat_tokenizeKeepPunct: "concat (tokenizeKeepPunct s) = s"
proof (induction s rule: tokenizeKeepPunct.induct)
  case (1 s)
  show ?case
  proof (cases "matchToken s")
    case None
    then have "s = []" using matchToken_Cons by (cases s) auto
    with None show ?thesis by (simp add: tokenizeKeepPunct.simps)
  next
    case (Some m)
    obtain tok rest where m: "m = (tok, rest)" by (cases m)
    from Some m have "concat (tokenizeKeepPunct rest) = rest" using "1.IH" by simp
    with Some m show ?thesis
      by (simp add: tokenizeKeepPunct.simps [of s] matchToken_concat)
  qed
qed

text \<open>
  C1. Tokenizer round trip: for every input string the tokens, concatenated in order, are
  the input itself, and the empty input has no tokens.
\<close>

theorem tokenize_round_trip:
  "concat (tokenizeKeepPunct s) = s \<and> tokenizeKeepPunct [] = []"
  by (simp add: concat_tokenizeKeepPunct tokenizeKeepPunct.simps [of "[]"]
      matchToken_def matchWord_def matchSep_def)

theorem tokenize_round_trip_witness:
  "concat (tokenizeKeepPunct (str ''Hello, world!'')) = str ''Hello, world!''
   \<and> tokenizeKeepPunct (str ''Hello, world!'')
       = [str ''Hello'', str '', '', str ''world'', str ''!'']
   \<and> tokenizeKeepPunct [] = []"
  using tokenize_round_trip [of "str ''Hello, world!''"]
  by (simp add: str_def tokenizeKeepPunct.simps matchToken_def matchWord_def matchSep_def
      isLetter_def isUpperLetter_def isLowerLetter_def apostrophe_def)

section \<open>Facts about letters and case\<close>

lemmas char_defs = isUpperLetter_def isLowerLetter_def isLetter_def asciiUpperChar_def
  asciiLowerChar_def

lemma str_eq_iff [simp]: "str a = str b \<longleftrightarrow> a = b"
  by (simp add: str_def inj_on_def)

lemma str_Nil [simp]: "str [] = []"
  by (simp add: str_def)

lemma str_append [simp]: "str a @ str b = str (a @ b)"
  by (simp add: str_def)

lemma str_eq_Nil [simp]: "str a = [] \<longleftrightarrow> a = []" "[] = str a \<longleftrightarrow> a = []"
  by (auto simp: str_def)

lemma asciiLowerChar_not_upper: "\<not> isUpperLetter (asciiLowerChar c)"
  by (auto simp: char_defs)

lemma asciiLowerChar_fix: "asciiLowerChar c = c \<longleftrightarrow> \<not> isUpperLetter c"
  by (auto simp: char_defs)

lemma asciiUpperChar_fix: "asciiUpperChar c = c \<longleftrightarrow> \<not> isLowerLetter c"
  by (auto simp: char_defs)

lemma asciiLowerChar_ascii: "c < 0x80 \<Longrightarrow> asciiLowerChar c < 0x80"
  by (auto simp: char_defs)

lemma map_asciiLowerChar_fix:
  "map asciiLowerChar s = s \<longleftrightarrow> list_all (\<lambda>c. \<not> isUpperLetter c) s"
  by (induction s) (auto simp: asciiLowerChar_fix)

lemma map_asciiUpperChar_fix:
  "map asciiUpperChar s = s \<longleftrightarrow> list_all (\<lambda>c. \<not> isLowerLetter c) s"
  by (induction s) (auto simp: asciiUpperChar_fix)

lemma isAscii_lower: "isAscii s \<Longrightarrow> isAscii (map asciiLowerChar s)"
  by (simp add: isAscii_def list_all_iff asciiLowerChar_ascii)

lemma isAscii_take: "isAscii s \<Longrightarrow> isAscii (take n s)"
  by (auto simp: isAscii_def list_all_iff dest: in_set_takeD)

lemma toLowerCase_ascii: "isAscii s \<Longrightarrow> toLowerCase rt s = map asciiLowerChar s"
  by (simp add: toLowerCase_def)

lemma toUpperCase_ascii: "isAscii s \<Longrightarrow> toUpperCase rt s = map asciiUpperChar s"
  by (simp add: toUpperCase_def)

lemma isAscii_toLowerCase: "isAscii s \<Longrightarrow> isAscii (toLowerCase rt s)"
  by (simp add: toLowerCase_ascii isAscii_lower)


lemma toLowerCase_idem: "isAscii s \<Longrightarrow> toLowerCase rt (toLowerCase rt s) = toLowerCase rt s"
proof -
  assume a: "isAscii s"
  have "asciiLowerChar (asciiLowerChar c) = asciiLowerChar c" for c
    by (simp add: asciiLowerChar_fix asciiLowerChar_not_upper)
  then have "map asciiLowerChar (map asciiLowerChar s) = map asciiLowerChar s"
    by simp
  with a show ?thesis
    using toLowerCase_ascii [OF isAscii_lower [OF a], of rt] by (simp add: toLowerCase_ascii)
qed

lemma toLowerCase_take:
  "isAscii s \<Longrightarrow> toLowerCase rt (take n s) = take n (toLowerCase rt s)"
  by (simp add: toLowerCase_ascii isAscii_take take_map)

text \<open>A word token consists of ASCII letters and at most one apostrophe.\<close>

lemma isLetter_ascii: "isLetter c \<Longrightarrow> c < 0x80"
  by (auto simp: char_defs)

lemma isAscii_takeWhile_isLetter: "isAscii (takeWhile isLetter s)"
  by (auto simp: isAscii_def list_all_iff isLetter_ascii dest: set_takeWhileD)

lemma isWordToken_ascii: "isWordToken tok \<Longrightarrow> isAscii tok"
proof -
  assume w: "isWordToken tok"
  then obtain word where m: "matchWord tok = Some (word, [])"
    by (auto simp: isWordToken_def split: option.splits)
  then have tok: "word = tok" using matchWord_concat [of tok word "[]"] by simp
  have "isAscii word"
  proof (cases "dropWhile isLetter tok")
    case Nil
    with m have "word = takeWhile isLetter tok"
      by (auto simp: matchWord_def Let_def split: if_splits)
    then show ?thesis by (simp add: isAscii_takeWhile_isLetter)
  next
    case (Cons q rest')
    with m have "word = takeWhile isLetter tok @ apostrophe # takeWhile isLetter rest'"
      by (auto simp: matchWord_def Let_def split: if_splits)
    moreover have "isAscii (takeWhile isLetter tok)" "isAscii (takeWhile isLetter rest')"
      by (rule isAscii_takeWhile_isLetter)+
    ultimately show ?thesis by (simp add: isAscii_def apostrophe_def)
  qed
  with tok show ?thesis by simp
qed

text \<open>The equations that evaluate the model on a concrete input.\<close>

lemmas eval_defs = str_def char_defs isAscii_def toUpperCase_def toLowerCase_def
  apostrophe_def isSpace_def trim_def normalizeSpaces_def matchWord_def matchSep_def
  matchToken_def tokenizeKeepPunct.simps isWordToken_def inherited_def
  objectPrototypeMethods_def objGet_def containerGet_def primaryField_def lookupWord_def
  lookupPhrase_def isAllCaps_def isTitleCase_def applyCasing_def endsWith_def
  isPossessive_def baseWordOf_def translateToken_def wordByWord_def translateText_def Let_def

section \<open>Identity fallback\<close>

text \<open>
  C8. With no active dictionary \<^verbatim>\<open>translateText\<close> returns its input unchanged, whatever
  the two switches say (also when \<^verbatim>\<open>markUnknown\<close> is set).
\<close>

theorem identity_fallback: "translateText rt None fl s = Inr (Json (JStr s))"
  by (simp add: translateText_def)

theorem identity_fallback_witness:
  "\<forall>rt. translateText rt None \<lparr>preferPhrases = False, markUnknown = True\<rparr> (str ''Hello, zzz!'')
     = Inr (Json (JStr (str ''Hello, zzz!'')))"
proof
  fix rt :: "'a runtime"
  show "translateText rt None \<lparr>preferPhrases = False, markUnknown = True\<rparr> (str ''Hello, zzz!'')
     = Inr (Json (JStr (str ''Hello, zzz!'')))"
    using identity_fallback [of rt "\<lparr>preferPhrases = False, markUnknown = True\<rparr>"
        "str ''Hello, zzz!''"]
    by simp
qed

section \<open>Casing transfer against its specification\<close>

lemma isAllCaps_spec: "isAllCaps rt s \<longleftrightarrow> entirelyUppercase rt s \<and> length s > 1"
  by (auto simp: isAllCaps_def entirelyUppercase_def)

lemma isTitleCase_spec: "isTitleCase rt s \<longleftrightarrow> titleCase_spec rt s"
  by (cases s) (auto simp: isTitleCase_def titleCase_spec_def entirelyUppercase_def
      entirelyLowercase_def)

lemma entirelyUppercase_ascii:
  "isAscii s \<Longrightarrow> entirelyUppercase rt s \<longleftrightarrow> list_all (\<lambda>c. \<not> isLowerLetter c) s"
  by (simp add: entirelyUppercase_def toUpperCase_ascii map_asciiUpperChar_fix)

lemma entirelyLowercase_ascii:
  "isAscii s \<Longrightarrow> entirelyLowercase rt s \<longleftrightarrow> list_all (\<lambda>c. \<not> isUpperLetter c) s"
  by (simp add: entirelyLowercase_def toLowerCase_ascii map_asciiLowerChar_fix)

text \<open>
  C5. For every token and every non-empty translation string, \<^verbatim>\<open>applyCasing\<close> returns
  the translation uppercased when the token is entirely uppercase and longer than one
  character; else the translation with its first character uppercased and the rest
  lowercased when the token is title-case (its first character uppercase, the rest
  entirely lowercase); else the translation lowercased when the token is entirely
  lowercase; else the translation as it is stored. Uppercase and lowercase are those of
  the runtime, for every string; for a token of ASCII characters, as the tokenizer
  makes them, entirely uppercase says that the token has no letter \<^verbatim>\<open>a\<close> to \<^verbatim>\<open>z\<close>, and
  entirely lowercase that it has no letter \<^verbatim>\<open>A\<close> to \<^verbatim>\<open>Z\<close>.
\<close>

theorem applyCasing_follows_spec:
  "(t \<noteq> [] \<longrightarrow> applyCasing rt tok (JStr t) = Inr (JStr (casingTransfer_spec rt tok t)))
   \<and> (isAscii tok \<longrightarrow>
        (entirelyUppercase rt tok \<longleftrightarrow> list_all (\<lambda>c. \<not> isLowerLetter c) tok)
        \<and> (entirelyLowercase rt tok \<longleftrightarrow> list_all (\<lambda>c. \<not> isUpperLetter c) tok))
   \<and> (isAscii t \<longrightarrow>
        toUpperCase rt t = map asciiUpperChar t \<and> toLowerCase rt t = map asciiLowerChar t)"
proof (intro conjI impI)
  assume t: "t \<noteq> []"
  then obtain c cs where tc: "t = c # cs" by (cases t) auto
  have low: "tok = toLowerCase rt tok \<longleftrightarrow> entirelyLowercase rt tok"
    by (auto simp: entirelyLowercase_def)
  show "applyCasing rt tok (JStr t) = Inr (JStr (casingTransfer_spec rt tok t))"
    unfolding applyCasing_def casingTransfer_spec_def
    using tc low by (simp add: isAllCaps_spec isTitleCase_spec)
next
  assume "isAscii tok"
  then show "entirelyUppercase rt tok \<longleftrightarrow> list_all (\<lambda>c. \<not> isLowerLetter c) tok"
    and "entirelyLowercase rt tok \<longleftrightarrow> list_all (\<lambda>c. \<not> isUpperLetter c) tok"
    by (simp_all add: entirelyUppercase_ascii entirelyLowercase_ascii)
next
  assume "isAscii t"
  then show "toUpperCase rt t = map asciiUpperChar t" and "toLowerCase rt t = map asciiLowerChar t"
    by (simp_all add: toUpperCase_ascii toLowerCase_ascii)
qed

theorem applyCasing_follows_spec_witness:
  "\<forall>rt. applyCasing rt (str ''HELLO'') (JStr (str ''ya'')) = Inr (JStr (str ''YA''))
     \<and> applyCasing rt (str ''World'') (JStr (str ''mONA'')) = Inr (JStr (str ''Mona''))
     \<and> applyCasing rt (str ''world'') (JStr (str ''MoNa'')) = Inr (JStr (str ''mona''))
     \<and> applyCasing rt (str ''wOrld'') (JStr (str ''MoNa'')) = Inr (JStr (str ''MoNa''))
     \<and> applyCasing rt (str ''DON'T'') (JStr (str ''na'')) = Inr (JStr (str ''NA''))
     \<and> applyCasing rt (str ''I'') (JStr (str ''mi'')) = Inr (JStr (str ''Mi''))
     \<and> str ''ya'' \<noteq> [] \<and> isAscii (str ''HELLO'') \<and> isAscii (str ''ya'')
     \<and> entirelyUppercase rt (str ''HELLO'') \<and> entirelyLowercase rt (str ''world'')
     \<and> titleCase_spec rt (str ''World'')
     \<and> toUpperCase rt (str ''ya'') = str ''YA'' \<and> toLowerCase rt (str ''MoNa'') = str ''mona''"
proof
  fix rt :: "'a runtime"
  have e: "isAscii (str ''HELLO'')" "isAscii (str ''World'')" "isAscii (str ''world'')"
    "isAscii (str ''wOrld'')" "isAscii (str ''DON'T'')" "isAscii (str ''I'')"
    "isAscii (str ''ya'')" "isAscii (str ''mONA'')" "isAscii (str ''MoNa'')"
    "isAscii (str ''na'')" "isAscii (str ''mi'')"
    by (simp_all add: isAscii_def str_def)
  from applyCasing_follows_spec [of "str ''ya''" rt "str ''HELLO''"]
    applyCasing_follows_spec [of "str ''mONA''" rt "str ''World''"]
    applyCasing_follows_spec [of "str ''MoNa''" rt "str ''world''"]
    applyCasing_follows_spec [of "str ''MoNa''" rt "str ''wOrld''"]
    applyCasing_follows_spec [of "str ''na''" rt "str ''DON'T''"]
    applyCasing_follows_spec [of "str ''mi''" rt "str ''I''"]
  show "applyCasing rt (str ''HELLO'') (JStr (str ''ya'')) = Inr (JStr (str ''YA''))
     \<and> applyCasing rt (str ''World'') (JStr (str ''mONA'')) = Inr (JStr (str ''Mona''))
     \<and> applyCasing rt (str ''world'') (JStr (str ''MoNa'')) = Inr (JStr (str ''mona''))
     \<and> applyCasing rt (str ''wOrld'') (JStr (str ''MoNa'')) = Inr (JStr (str ''MoNa''))
     \<and> applyCasing rt (str ''DON'T'') (JStr (str ''na'')) = Inr (JStr (str ''NA''))
     \<and> applyCasing rt (str ''I'') (JStr (str ''mi'')) = Inr (JStr (str ''Mi''))
     \<and> str ''ya'' \<noteq> [] \<and> isAscii (str ''HELLO'') \<and> isAscii (str ''ya'')
     \<and> entirelyUppercase rt (str ''HELLO'') \<and> entirelyLowercase rt (str ''world'')
     \<and> titleCase_spec rt (str ''World'')
     \<and> toUpperCase rt (str ''ya'') = str ''YA'' \<and> toLowerCase rt (str ''MoNa'') = str ''mona''"
    by (simp add: casingTransfer_spec_def entirelyUppercase_def entirelyLowercase_def
        titleCase_spec_def toUpperCase_def toLowerCase_def isAscii_def str_def char_defs)
qed

section \<open>Word lookup\<close>

lemma objGet_l:
  "objGet kvs (str ''l'') = (case map_of kvs (str ''l'') of Some v \<Rightarrow> Json v | None \<Rightarrow> Undefined)"
  by (simp add: objGet_def inherited_def objectPrototypeMethods_def split: option.splits)

lemma containerGet_stored: "stored rt c key = Some v \<Longrightarrow> containerGet rt c key = Json v"
  by (cases c) (auto simp: stored_def containerGet_def objGet_def split: jsval.splits)

lemma containerGet_not_stored:
  "stored rt c key = None \<Longrightarrow> containerGet rt c key \<noteq> Json v"
  by (cases c) (auto simp: stored_def containerGet_def objGet_def inherited_def
      split: jsval.splits)

text \<open>
  What \<^verbatim>\<open>lookupWord\<close> returns, read off what \<^verbatim>\<open>words\<close> has stored: what a read finds
  otherwise, up the prototype chain, is a function or a prototype, and neither is a
  string or has a property \<^verbatim>\<open>l\<close>.
\<close>

lemma lookupWord_stored:
  "lookupWord rt activeDict w =
     (case activeDict of
        None \<Rightarrow> JNull
      | Some d \<Rightarrow> storedTranslation (stored rt (words d) (toLowerCase rt w)))"
proof (cases activeDict)
  case None
  then show ?thesis by (simp add: lookupWord_def)
next
  case (Some d)
  show ?thesis
  proof (cases "stored rt (words d) (toLowerCase rt w)")
    case None
    then have "\<And>v. containerGet rt (words d) (toLowerCase rt w) \<noteq> Json v"
      by (rule containerGet_not_stored)
    with Some None show ?thesis
      by (cases "containerGet rt (words d) (toLowerCase rt w)")
        (auto simp: lookupWord_def storedTranslation_def primaryField_def Let_def)
  next
    case (Some v)
    then have "containerGet rt (words d) (toLowerCase rt w) = Json v"
      by (rule containerGet_stored)
    with Some \<open>activeDict = Some d\<close> show ?thesis
      by (cases v) (simp_all add: lookupWord_def storedTranslation_def objGet_l
          primaryField_def Let_def split: option.splits)
  qed
qed

text \<open>
  C7, as the claim states it, fails where the stored value is the empty string: the value
  is a plain string, and \<^verbatim>\<open>lookupWord\<close> reports not-found instead of returning it.
\<close>

theorem lookupWord_empty_string_counterexample:
  "\<forall>rt. stored rt (words exampleWords) (toLowerCase rt (str ''void'')) = Some (JStr [])
     \<and> lookupWord rt (Some exampleWords) (str ''void'') = JNull
     \<and> lookupWord rt (Some exampleWords) (str ''void'') \<noteq> JStr []"
  by (simp add: exampleWords_def stored_def eval_defs)

text \<open>
  C7, amended. \<^verbatim>\<open>lookupWord\<close> case-folds the word and looks it up in \<^verbatim>\<open>words\<close>. A stored
  non-empty string is returned. For a stored structured entry its primary field \<^verbatim>\<open>l\<close>
  is returned when that field is present and truthy (a non-empty string, for one). In
  every other case the result is not-found (\<^verbatim>\<open>null\<close>): no active dictionary, the key
  absent, an empty stored string, a structured entry whose \<^verbatim>\<open>l\<close> is absent or falsy, a
  value of another shape. The result is a function of the dictionary and the word alone,
  and the dictionary is only read.
\<close>

theorem lookupWord_resolves:
  "lookupWord rt activeDict w =
     (case activeDict of
        None \<Rightarrow> JNull
      | Some d \<Rightarrow>
          (case stored rt (words d) (toLowerCase rt w) of
             Some (JStr s) \<Rightarrow> if s \<noteq> [] then JStr s else JNull
           | Some (JObj entry) \<Rightarrow>
               (case map_of entry (str ''l'') of
                  Some v \<Rightarrow> if jsonTruthy v then v else JNull
                | None \<Rightarrow> JNull)
           | _ \<Rightarrow> JNull))"
  by (simp add: lookupWord_stored storedTranslation_def split: option.splits)

theorem lookupWord_resolves_witness:
  "\<forall>rt. lookupWord rt (Some exampleWords) (str ''Hello'') = JStr (str ''Ya'')
     \<and> lookupWord rt (Some exampleWords) (str ''MOON'') = JStr (str ''muna'')
     \<and> lookupWord rt (Some exampleWords) (str ''void'') = JNull
     \<and> lookupWord rt (Some exampleWords) (str ''sun'') = JNull
     \<and> lookupWord rt (Some exampleWords) (str ''five'') = JNull
     \<and> lookupWord rt (Some exampleWords) (str ''constructor'') = JNull
     \<and> lookupWord rt None (str ''hello'') = JNull"
proof
  fix rt :: "'a runtime"
  from lookupWord_resolves [of rt "Some exampleWords" "str ''Hello''"]
    lookupWord_resolves [of rt "Some exampleWords" "str ''MOON''"]
    lookupWord_resolves [of rt "Some exampleWords" "str ''void''"]
    lookupWord_resolves [of rt "Some exampleWords" "str ''sun''"]
    lookupWord_resolves [of rt "Some exampleWords" "str ''five''"]
    lookupWord_resolves [of rt "Some exampleWords" "str ''constructor''"]
    lookupWord_resolves [of rt None "str ''hello''"]
  show "lookupWord rt (Some exampleWords) (str ''Hello'') = JStr (str ''Ya'')
     \<and> lookupWord rt (Some exampleWords) (str ''MOON'') = JStr (str ''muna'')
     \<and> lookupWord rt (Some exampleWords) (str ''void'') = JNull
     \<and> lookupWord rt (Some exampleWords) (str ''sun'') = JNull
     \<and> lookupWord rt (Some exampleWords) (str ''five'') = JNull
     \<and> lookupWord rt (Some exampleWords) (str ''constructor'') = JNull
     \<and> lookupWord rt None (str ''hello'') = JNull"
    by (simp add: exampleWords_def stored_def toLowerCase_def isAscii_def str_def char_defs)
qed

section \<open>Preferred phrases\<close>

text \<open>
  C6, as the claim states it, fails where the key is in \<^verbatim>\<open>phrases\<close> with the empty string
  stored: \<^verbatim>\<open>lookupPhrase\<close> takes the falsy value for a miss, and the word-by-word result
  is returned instead of the stored translation.
\<close>

theorem empty_phrase_counterexample:
  "\<forall>rt. stored rt (phrases emptyPhraseDict) (toLowerCase rt (normalizeSpaces (str ''Good Morning'')))
       = Some (JStr [])
     \<and> translateText rt (Some emptyPhraseDict) \<lparr>preferPhrases = True, markUnknown = False\<rparr>
         (str ''Good Morning'') = Inr (Json (JStr (str ''Good Morning'')))
     \<and> translateText rt (Some emptyPhraseDict) \<lparr>preferPhrases = True, markUnknown = False\<rparr>
         (str ''Good Morning'') \<noteq> Inr (Json (JStr []))"
  by (simp add: emptyPhraseDict_def stored_def eval_defs)

text \<open>
  C6, amended. When \<^verbatim>\<open>preferPhrases\<close> is set and the normalized, case-folded whole input
  is a key of \<^verbatim>\<open>phrases\<close> whose stored translation is not empty (is truthy),
  \<^verbatim>\<open>translateText\<close> returns the stored translation exactly as it is stored: no casing
  transfer, no tokenization, no word-level processing.
\<close>

theorem preferred_phrase_returned_as_stored:
  "preferPhrases fl \<Longrightarrow>
   stored rt (phrases d) (toLowerCase rt (normalizeSpaces text)) = Some v \<Longrightarrow>
   jsonTruthy v \<Longrightarrow>
   translateText rt (Some d) fl text = Inr (Json v)"
  by (simp add: translateText_def lookupPhrase_def containerGet_stored)

theorem preferred_phrase_returned_as_stored_witness:
  "\<forall>rt. preferPhrases \<lparr>preferPhrases = True, markUnknown = False\<rparr>
     \<and> stored rt (phrases goodMorningDict) (toLowerCase rt (normalizeSpaces (str ''Good Morning'')))
         = Some (JStr (str ''yara muna''))
     \<and> jsonTruthy (JStr (str ''yara muna''))
     \<and> translateText rt (Some goodMorningDict) \<lparr>preferPhrases = True, markUnknown = False\<rparr>
         (str ''Good Morning'') = Inr (Json (JStr (str ''yara muna'')))"
proof
  fix rt :: "'a runtime"
  have key: "stored rt (phrases goodMorningDict)
      (toLowerCase rt (normalizeSpaces (str ''Good Morning''))) = Some (JStr (str ''yara muna''))"
    by (simp add: goodMorningDict_def stored_def normalizeSpaces_def trim_def isSpace_def
        toLowerCase_def isAscii_def str_def char_defs)
  from preferred_phrase_returned_as_stored
    [of "\<lparr>preferPhrases = True, markUnknown = False\<rparr>", OF _ key]
  show "preferPhrases \<lparr>preferPhrases = True, markUnknown = False\<rparr>
     \<and> stored rt (phrases goodMorningDict) (toLowerCase rt (normalizeSpaces (str ''Good Morning'')))
         = Some (JStr (str ''yara muna''))
     \<and> jsonTruthy (JStr (str ''yara muna''))
     \<and> translateText rt (Some goodMorningDict) \<lparr>preferPhrases = True, markUnknown = False\<rparr>
         (str ''Good Morning'') = Inr (Json (JStr (str ''yara muna'')))"
    using key by simp
qed

section \<open>Empty entries\<close>

lemma storedTranslation_ne_empty: "storedTranslation e \<noteq> JStr []"
  by (auto simp: storedTranslation_def split: option.splits json.splits)

lemma lookupWord_ne_empty: "lookupWord rt activeDict w \<noteq> JStr []"
  by (simp add: lookupWord_stored storedTranslation_ne_empty split: option.splits)

lemma lookupPhrase_ne_empty: "lookupPhrase rt activeDict text \<noteq> Json (JStr [])"
  by (auto simp: lookupPhrase_def Let_def)

lemma toLowerCase_baseWordOf:
  "isAscii tok \<Longrightarrow>
   toLowerCase rt (baseWordOf (toLowerCase rt tok)) = baseWordOf (toLowerCase rt tok)"
proof -
  assume a: "isAscii tok"
  then have "isAscii (toLowerCase rt tok)" by (rule isAscii_toLowerCase)
  then have "toLowerCase rt (take n (toLowerCase rt tok))
      = take n (toLowerCase rt (toLowerCase rt tok))" for n
    by (rule toLowerCase_take)
  with a show ?thesis by (simp add: baseWordOf_def toLowerCase_idem)
qed

lemma lookupWord_baseWord:
  "isWordToken tok \<Longrightarrow>
   lookupWord rt (Some d) (baseWordOf (toLowerCase rt tok))
     = storedTranslation (stored rt (words d) (baseWordOf (toLowerCase rt tok)))"
  by (simp add: lookupWord_stored toLowerCase_baseWordOf isWordToken_ascii)

lemma emptyWordEntry_miss: "emptyWordEntry e \<Longrightarrow> storedTranslation (Some e) = JNull"
  by (cases e) (auto simp: storedTranslation_def)

lemma empty_phrase_miss:
  "stored rt (phrases d) (toLowerCase rt (normalizeSpaces text)) = Some (JStr []) \<Longrightarrow>
   \<not> truthy (lookupPhrase rt (Some d) text)"
  by (simp add: lookupPhrase_def containerGet_stored)

text \<open>
  C10. An entry whose stored value is empty is a miss. \<^verbatim>\<open>lookupWord\<close> and
  \<^verbatim>\<open>lookupPhrase\<close> never return the empty string. A word token whose lookup key is
  stored in \<^verbatim>\<open>words\<close> with the empty string, or with a structured entry whose primary
  field \<^verbatim>\<open>l\<close> is absent or empty, is echoed (in brackets under \<^verbatim>\<open>markUnknown\<close>) and
  not translated to the empty string. A phrase stored with the empty string never
  overrides the word-by-word result.
\<close>

theorem empty_entries_are_misses:
  "lookupWord rt activeDict w \<noteq> JStr []
   \<and> lookupPhrase rt activeDict text \<noteq> Json (JStr [])
   \<and> (isWordToken tok \<and> stored rt (words d) (baseWordOf (toLowerCase rt tok)) = Some e
        \<and> emptyWordEntry e \<longrightarrow>
        translateToken rt (Some d) fl tok
          = Inr (JStr (if markUnknown fl then str ''['' @ tok @ str '']'' else tok)))
   \<and> (stored rt (phrases d) (toLowerCase rt (normalizeSpaces text)) = Some (JStr []) \<longrightarrow>
        translateText rt (Some d) fl text
          = (case wordByWord rt (Some d) fl text of
               Inl err \<Rightarrow> Inl err
             | Inr joined \<Rightarrow> Inr (Json (JStr joined))))"
proof (intro conjI impI)
  show "lookupWord rt activeDict w \<noteq> JStr []" by (rule lookupWord_ne_empty)
  show "lookupPhrase rt activeDict text \<noteq> Json (JStr [])" by (rule lookupPhrase_ne_empty)
next
  assume a: "isWordToken tok \<and> stored rt (words d) (baseWordOf (toLowerCase rt tok)) = Some e
     \<and> emptyWordEntry e"
  then have "lookupWord rt (Some d) (baseWordOf (toLowerCase rt tok)) = JNull"
    by (simp add: lookupWord_baseWord emptyWordEntry_miss)
  with a show "translateToken rt (Some d) fl tok
      = Inr (JStr (if markUnknown fl then str ''['' @ tok @ str '']'' else tok))"
    by (simp add: translateToken_def)
next
  assume "stored rt (phrases d) (toLowerCase rt (normalizeSpaces text)) = Some (JStr [])"
  then have "\<not> truthy (lookupPhrase rt (Some d) text)" by (rule empty_phrase_miss)
  then show "translateText rt (Some d) fl text
      = (case wordByWord rt (Some d) fl text of
           Inl err \<Rightarrow> Inl err
         | Inr joined \<Rightarrow> Inr (Json (JStr joined)))"
    by (simp add: translateText_def split: sum.splits)
qed

lemma wordByWord_void_sun:
  "wordByWord rt (Some emptyEntriesDict) \<lparr>preferPhrases = False, markUnknown = True\<rparr>
     (str ''Void sun'') = Inr (str ''[Void] [sun]'')"
  by (simp add: emptyEntriesDict_def eval_defs)

theorem empty_entries_are_misses_witness:
  "\<forall>rt. isWordToken (str ''Void'')
     \<and> stored rt (words emptyEntriesDict) (baseWordOf (toLowerCase rt (str ''Void'')))
         = Some (JStr [])
     \<and> translateToken rt (Some emptyEntriesDict) \<lparr>preferPhrases = False, markUnknown = True\<rparr>
         (str ''Void'') = Inr (JStr (str ''[Void]''))
     \<and> isWordToken (str ''Sun's'')
     \<and> stored rt (words emptyEntriesDict) (baseWordOf (toLowerCase rt (str ''Sun's'')))
         = Some (JObj [(str ''note'', JStr (str ''x''))])
     \<and> translateToken rt (Some emptyEntriesDict) \<lparr>preferPhrases = False, markUnknown = False\<rparr>
         (str ''Sun's'') = Inr (JStr (str ''Sun's''))
     \<and> isWordToken (str ''MOON'')
     \<and> stored rt (words emptyEntriesDict) (baseWordOf (toLowerCase rt (str ''MOON'')))
         = Some (JObj [(str ''l'', JStr [])])
     \<and> translateToken rt (Some emptyEntriesDict) \<lparr>preferPhrases = False, markUnknown = False\<rparr>
         (str ''MOON'') = Inr (JStr (str ''MOON''))
     \<and> stored rt (phrases emptyEntriesDict) (toLowerCase rt (normalizeSpaces (str ''Void sun'')))
         = Some (JStr [])
     \<and> translateText rt (Some emptyEntriesDict) \<lparr>preferPhrases = False, markUnknown = True\<rparr>
         (str ''Void sun'') = Inr (Json (JStr (str ''[Void] [sun]'')))"
proof
  fix rt :: "'a runtime"
  have w: "isWordToken (str ''Void'')" "isWordToken (str ''Sun's'')" "isWordToken (str ''MOON'')"
    by (simp_all add: eval_defs)
  have k: "stored rt (words emptyEntriesDict) (baseWordOf (toLowerCase rt (str ''Void'')))
        = Some (JStr [])"
    "stored rt (words emptyEntriesDict) (baseWordOf (toLowerCase rt (str ''Sun's'')))
       = Some (JObj [(str ''note'', JStr (str ''x''))])"
    "stored rt (words emptyEntriesDict) (baseWordOf (toLowerCase rt (str ''MOON'')))
       = Some (JObj [(str ''l'', JStr [])])"
    by (simp_all add: emptyEntriesDict_def stored_def eval_defs)
  have p: "stored rt (phrases emptyEntriesDict) (toLowerCase rt (normalizeSpaces (str ''Void sun'')))
      = Some (JStr [])"
    by (simp add: emptyEntriesDict_def stored_def eval_defs)
  from
    empty_entries_are_misses [of rt "Some emptyEntriesDict" "str ''x''" "str ''x''" "str ''Void''"
      emptyEntriesDict "JStr []" "\<lparr>preferPhrases = False, markUnknown = True\<rparr>"]
    empty_entries_are_misses [of rt "Some emptyEntriesDict" "str ''x''" "str ''x''"
      "str ''Sun's''" emptyEntriesDict "JObj [(str ''note'', JStr (str ''x''))]"
      "\<lparr>preferPhrases = False, markUnknown = False\<rparr>"]
    empty_entries_are_misses [of rt "Some emptyEntriesDict" "str ''x''" "str ''x''" "str ''MOON''"
      emptyEntriesDict "JObj [(str ''l'', JStr [])]"
      "\<lparr>preferPhrases = False, markUnknown = False\<rparr>"]
    empty_entries_are_misses [of rt "Some emptyEntriesDict" "str ''x''" "str ''Void sun''"
      "str ''x''" emptyEntriesDict "JNull" "\<lparr>preferPhrases = False, markUnknown = True\<rparr>"]
    wordByWord_void_sun [of rt] w k p
  show "isWordToken (str ''Void'')
     \<and> stored rt (words emptyEntriesDict) (baseWordOf (toLowerCase rt (str ''Void'')))
         = Some (JStr [])
     \<and> translateToken rt (Some emptyEntriesDict) \<lparr>preferPhrases = False, markUnknown = True\<rparr>
         (str ''Void'') = Inr (JStr (str ''[Void]''))
     \<and> isWordToken (str ''Sun's'')
     \<and> stored rt (words emptyEntriesDict) (baseWordOf (toLowerCase rt (str ''Sun's'')))
         = Some (JObj [(str ''note'', JStr (str ''x''))])
     \<and> translateToken rt (Some emptyEntriesDict) \<lparr>preferPhrases = False, markUnknown = False\<rparr>
         (str ''Sun's'') = Inr (JStr (str ''Sun's''))
     \<and> isWordToken (str ''MOON'')
     \<and> stored rt (words emptyEntriesDict) (baseWordOf (toLowerCase rt (str ''MOON'')))
         = Some (JObj [(str ''l'', JStr [])])
     \<and> translateToken rt (Some emptyEntriesDict) \<lparr>preferPhrases = False, markUnknown = False\<rparr>
         (str ''MOON'') = Inr (JStr (str ''MOON''))
     \<and> stored rt (phrases emptyEntriesDict) (toLowerCase rt (normalizeSpaces (str ''Void sun'')))
         = Some (JStr [])
     \<and> translateText rt (Some emptyEntriesDict) \<lparr>preferPhrases = False, markUnknown = True\<rparr>
         (str ''Void sun'') = Inr (Json (JStr (str ''[Void] [sun]'')))"
    by (simp add: str_def)
qed

section \<open>Totality on typed dictionaries\<close>

lemma stringOrFalsy_truthy:
  "stringOrFalsy v \<Longrightarrow> jsonTruthy v \<Longrightarrow> \<exists>s. s \<noteq> [] \<and> v = JStr s"
  by (cases v) auto

lemma storedTranslation_typed:
  assumes "e = None \<or> (\<exists>entry. e = Some entry \<and> wordEntryOk entry)"
  shows "storedTranslation e = JNull \<or> (\<exists>s. s \<noteq> [] \<and> storedTranslation e = JStr s)"
proof (cases e)
  case None
  then show ?thesis by (simp add: storedTranslation_def)
next
  case (Some entry)
  with assms have ok: "wordEntryOk entry" by simp
  show ?thesis
  proof (cases entry)
    case (JObj kvs)
    show ?thesis
    proof (cases "map_of kvs (str ''l'')")
      case None
      with Some JObj show ?thesis by (simp add: storedTranslation_def)
    next
      case (Some v)
      with ok JObj have "stringOrFalsy v" by simp
      then have "jsonTruthy v \<Longrightarrow> \<exists>s. s \<noteq> [] \<and> v = JStr s"
        by (rule stringOrFalsy_truthy)
      with Some JObj \<open>e = Some entry\<close> show ?thesis
        by (auto simp: storedTranslation_def)
    qed
  qed (use Some in \<open>auto simp: storedTranslation_def\<close>)
qed

lemma lookupWord_typed:
  assumes "typedWords d"
  shows "lookupWord rt (Some d) w = JNull
     \<or> (\<exists>s. s \<noteq> [] \<and> lookupWord rt (Some d) w = JStr s)"
proof -
  from assms obtain obj where obj: "words d = PlainObject obj"
    and ok: "list_all (\<lambda>(k, v). wordEntryOk v) obj"
    by (auto simp: typedWords_def split: container.splits)
  let ?e = "stored rt (words d) (toLowerCase rt w)"
  have "?e = None \<or> (\<exists>entry. ?e = Some entry \<and> wordEntryOk entry)"
  proof (cases ?e)
    case None
    then show ?thesis by simp
  next
    case (Some entry)
    with obj have "(toLowerCase rt w, entry) \<in> set obj"
      by (auto simp: stored_def dest: map_of_SomeD)
    with ok have "wordEntryOk entry" by (auto simp: list_all_iff)
    with Some show ?thesis by simp
  qed
  then show ?thesis
    using storedTranslation_typed [of ?e] by (simp add: lookupWord_stored)
qed

lemma applyCasing_string: "t \<noteq> [] \<Longrightarrow> \<exists>t'. applyCasing rt tok (JStr t) = Inr (JStr t')"
  by (cases t) (auto simp: applyCasing_def)

lemma translateToken_typed:
  assumes "typedWords d"
  shows "\<exists>s. translateToken rt (Some d) fl tok = Inr (JStr s)"
proof (cases "isWordToken tok")
  case False
  then show ?thesis by (simp add: translateToken_def)
next
  case True
  let ?key = "baseWordOf (toLowerCase rt tok)"
  from lookupWord_typed [OF assms, of rt ?key]
  consider "lookupWord rt (Some d) ?key = JNull"
    | s where "s \<noteq> []" and "lookupWord rt (Some d) ?key = JStr s"
    by blast
  then show ?thesis
  proof cases
    case 1
    with True show ?thesis by (simp add: translateToken_def)
  next
    case 2
    from applyCasing_string [OF 2(1), of rt tok]
    obtain t' where "applyCasing rt tok (JStr s) = Inr (JStr t')" by blast
    with True 2 show ?thesis by (simp add: translateToken_def)
  qed
qed

lemma mapTokens_strings:
  assumes "\<And>tok. \<exists>s. f tok = Inr (JStr s)"
  shows "\<exists>ss. mapTokens f toks = Inr (map JStr ss)"
proof (induction toks)
  case Nil
  show ?case by simp
next
  case (Cons tok toks)
  from assms obtain s where s: "f tok = Inr (JStr s)" by blast
  from Cons obtain ss where "mapTokens f toks = Inr (map JStr ss)" by blast
  with s have "mapTokens f (tok # toks) = Inr (map JStr (s # ss))" by simp
  then show ?case by blast
qed

lemma joinElems_strings: "joinElems [] (map JStr ss) = Inr (concat ss)"
  by (induction ss) auto

lemma wordByWord_typed:
  assumes "typedWords d"
  shows "\<exists>joined. wordByWord rt (Some d) fl text = Inr joined"
proof -
  from mapTokens_strings [of "translateToken rt (Some d) fl" "tokenizeKeepPunct text"]
    translateToken_typed [OF assms]
  obtain ss where "mapTokens (translateToken rt (Some d) fl) (tokenizeKeepPunct text)
      = Inr (map JStr ss)"
    by blast
  then show ?thesis by (simp add: wordByWord_def joinElems_strings)
qed

lemma plain_miss:
  "phrases d = PlainObject obj \<Longrightarrow> map_of obj (toLowerCase rt (normalizeSpaces text)) = None \<Longrightarrow>
   toLowerCase rt (normalizeSpaces text) \<notin> set inheritedNames \<Longrightarrow>
   \<not> truthy (lookupPhrase rt (Some d) text)"
  by (simp add: lookupPhrase_def containerGet_def objGet_def inherited_def inheritedNames_def)

lemma lookupPhrase_typed:
  assumes "typedPhrases d" and "toLowerCase rt (normalizeSpaces text) \<notin> set inheritedNames"
  shows "\<not> truthy (lookupPhrase rt (Some d) text)
     \<or> (\<exists>s. lookupPhrase rt (Some d) text = Json (JStr s))"
proof -
  from assms(1) obtain obj where obj: "phrases d = PlainObject obj"
    and ok: "list_all (\<lambda>(k, v). stringOrFalsy v) obj"
    by (auto simp: typedPhrases_def split: container.splits)
  show ?thesis
  proof (cases "map_of obj (toLowerCase rt (normalizeSpaces text))")
    case None
    with obj assms(2) show ?thesis using plain_miss by blast
  next
    case (Some v)
    then have "(toLowerCase rt (normalizeSpaces text), v) \<in> set obj" by (rule map_of_SomeD)
    with ok have "stringOrFalsy v" by (auto simp: list_all_iff)
    with Some obj show ?thesis
      by (cases v) (auto simp: lookupPhrase_def containerGet_def objGet_def)
  qed
qed

text \<open>
  Where \<^verbatim>\<open>phrases\<close> is an array, the names it inherits are those of \<^verbatim>\<open>Array.prototype\<close>:
  on a runtime whose arrays have the method \<^verbatim>\<open>some\<close>, as they all have, the input
  \<^verbatim>\<open>some\<close> is translated to that function.
\<close>

lemma array_phrases_inherit:
  assumes "phrases d = ArrayObject a" and "words d = PlainObject []"
    and "arrayGet rt a (str ''some'') = Builtin (str ''some'')"
  shows "translateText rt (Some d) fl (str ''some'') = Inr (Builtin (str ''some''))"
proof -
  have k: "toLowerCase rt (normalizeSpaces (str ''some'')) = str ''some''"
    by (simp add: eval_defs)
  have "lookupPhrase rt (Some d) (str ''some'') = Builtin (str ''some'')"
    using assms(1,3) by (simp add: lookupPhrase_def containerGet_def k)
  moreover have "\<exists>joined. wordByWord rt (Some d) fl (str ''some'') = Inr joined"
    using assms(2) by (intro wordByWord_typed) (simp add: typedWords_def)
  ultimately show ?thesis by (auto simp: translateText_def)
qed

text \<open>
  C3, as the claim states it, fails. With a structured entry whose primary field is a
  number, translating a word that finds it throws: \<^verbatim>\<open>applyCasing\<close> calls
  \<^verbatim>\<open>toLowerCase\<close> on the number. And on any dictionary the input \<^verbatim>\<open>constructor\<close> finds, as
  its phrase, the function all objects inherit under that name, and that function is
  returned, not a string.
\<close>

theorem translateText_throws_counterexample:
  "\<forall>rt. translateText rt (Some numberEntryDict) \<lparr>preferPhrases = False, markUnknown = False\<rparr>
         (str ''hello'') = Inl TypeError
     \<and> translateText rt (Some emptyDict) \<lparr>preferPhrases = False, markUnknown = False\<rparr>
         (str ''constructor'') = Inr (Builtin (str ''constructor''))"
  by (simp add: numberEntryDict_def emptyDict_def eval_defs)

text \<open>
  C3, amended. \<^verbatim>\<open>translateText\<close> returns a string and does not throw, for every input
  string and every setting of the switches, when no dictionary is active, and when the
  dictionary is typed (\<^verbatim>\<open>words\<close> and \<^verbatim>\<open>phrases\<close> are plain objects, not arrays; every
  structured word entry has a primary field that is absent, a string or falsy; every
  phrase value is a string or falsy) and the normalized, case-folded input is not the
  name of a property that plain objects inherit.
\<close>

theorem translateText_total_when_typed:
  "(\<exists>s. translateText rt None fl text = Inr (Json (JStr s)))
   \<and> (typedWords d \<and> typedPhrases d
        \<and> toLowerCase rt (normalizeSpaces text) \<notin> set inheritedNames \<longrightarrow>
      (\<exists>s. translateText rt (Some d) fl text = Inr (Json (JStr s))))"
proof (intro conjI impI)
  show "\<exists>s. translateText rt None fl text = Inr (Json (JStr s))"
    by (simp add: translateText_def)
next
  assume a: "typedWords d \<and> typedPhrases d
    \<and> toLowerCase rt (normalizeSpaces text) \<notin> set inheritedNames"
  then obtain joined where j: "wordByWord rt (Some d) fl text = Inr joined"
    using wordByWord_typed by blast
  from a have "\<not> truthy (lookupPhrase rt (Some d) text)
      \<or> (\<exists>s. lookupPhrase rt (Some d) text = Json (JStr s))"
    using lookupPhrase_typed by blast
  with j show "\<exists>s. translateText rt (Some d) fl text = Inr (Json (JStr s))"
    by (auto simp: translateText_def)
qed

theorem translateText_total_when_typed_witness:
  "\<forall>rt :: 'arr runtime.
     typedWords (exampleWords :: 'arr dict) \<and> typedPhrases (exampleWords :: 'arr dict)
     \<and> toLowerCase rt (normalizeSpaces (str ''Hello, five suns!'')) \<notin> set inheritedNames
     \<and> translateText rt (Some exampleWords) \<lparr>preferPhrases = False, markUnknown = True\<rparr>
         (str ''Hello, five suns!'') = Inr (Json (JStr (str ''Ya, [five] [suns]!'')))
     \<and> translateText rt None \<lparr>preferPhrases = False, markUnknown = True\<rparr> (str ''Hello'')
         = Inr (Json (JStr (str ''Hello'')))"
proof
  fix rt :: "'arr runtime"
  from translateText_total_when_typed
    [of rt "\<lparr>preferPhrases = False, markUnknown = True\<rparr>" "str ''Hello, five suns!''"
      exampleWords]
    translateText_total_when_typed
    [of rt "\<lparr>preferPhrases = False, markUnknown = True\<rparr>" "str ''Hello''" exampleWords]
  show "typedWords (exampleWords :: 'arr dict) \<and> typedPhrases (exampleWords :: 'arr dict)
     \<and> toLowerCase rt (normalizeSpaces (str ''Hello, five suns!'')) \<notin> set inheritedNames
     \<and> translateText rt (Some exampleWords) \<lparr>preferPhrases = False, markUnknown = True\<rparr>
         (str ''Hello, five suns!'') = Inr (Json (JStr (str ''Ya, [five] [suns]!'')))
     \<and> translateText rt None \<lparr>preferPhrases = False, markUnknown = True\<rparr> (str ''Hello'')
         = Inr (Json (JStr (str ''Hello'')))"
    by (simp add: exampleWords_def typedWords_def typedPhrases_def inheritedNames_def eval_defs)
qed

section \<open>Phrase override after the word-by-word pass\<close>

lemma wordByWord_good_morning:
  "wordByWord rt (Some goodMorningDict) \<lparr>preferPhrases = False, markUnknown = False\<rparr>
     (str ''Good Morning'') = Inr (str ''Yara Morning'')"
  by (simp add: goodMorningDict_def eval_defs)

lemma wordByWord_good_day:
  "wordByWord rt (Some goodMorningDict) \<lparr>preferPhrases = False, markUnknown = False\<rparr>
     (str ''Good day'') = Inr (str ''Yara day'')"
  by (simp add: goodMorningDict_def eval_defs)

text \<open>
  C2, as the claim states it, fails. Where the word-by-word pass throws, the phrase
  lookup is never reached: with the word \<^verbatim>\<open>hello\<close> stored as a structured entry whose
  primary field is a number and the phrase \<^verbatim>\<open>hello\<close> stored as \<^verbatim>\<open>ya\<close>, the input \<^verbatim>\<open>hello\<close>
  hits the phrase, and \<^verbatim>\<open>translateText\<close> throws instead of returning it. And the lookup
  of the input \<^verbatim>\<open>constructor\<close> finds no phrase of the dictionary but the function all
  objects inherit under that name: what is returned is neither a phrase translation nor
  the word-by-word result.
\<close>

theorem phrase_lookup_not_reached_counterexample:
  "\<forall>rt. stored rt (phrases numberEntryPhraseDict)
           (toLowerCase rt (normalizeSpaces (str ''hello''))) = Some (JStr (str ''ya''))
     \<and> translateText rt (Some numberEntryPhraseDict)
         \<lparr>preferPhrases = False, markUnknown = False\<rparr> (str ''hello'') = Inl TypeError
     \<and> stored rt (phrases emptyDict) (toLowerCase rt (normalizeSpaces (str ''constructor'')))
         = None
     \<and> wordByWord rt (Some emptyDict) \<lparr>preferPhrases = False, markUnknown = False\<rparr>
         (str ''constructor'') = Inr (str ''constructor'')
     \<and> translateText rt (Some emptyDict) \<lparr>preferPhrases = False, markUnknown = False\<rparr>
         (str ''constructor'') = Inr (Builtin (str ''constructor''))"
  by (simp add: numberEntryPhraseDict_def emptyDict_def stored_def eval_defs)

text \<open>
  C2, amended. With \<^verbatim>\<open>preferPhrases\<close> off and a dictionary on which the word-by-word pass
  does not throw (it never throws where \<^verbatim>\<open>words\<close> is a plain object with typed entries:
  every structured entry has a primary field that is absent, a string or falsy),
  \<^verbatim>\<open>translateText\<close> computes the word-by-word result and then looks the normalized,
  case-folded whole input up in \<^verbatim>\<open>phrases\<close>. Where it is stored there with a truthy
  value (a non-empty translation), that stored value is returned in place of the
  word-by-word result. Where it is stored with a falsy value (the empty string), and
  where \<^verbatim>\<open>phrases\<close> is a plain object that does not store it and it is not the name of a
  property that plain objects inherit, the word-by-word result is returned.
\<close>

theorem phrase_overrides_word_by_word:
  assumes "\<not> preferPhrases fl"
  shows "(typedWords d \<longrightarrow> (\<exists>joined. wordByWord rt (Some d) fl text = Inr joined))
       \<and> (\<forall>joined. wordByWord rt (Some d) fl text = Inr joined \<longrightarrow>
            (\<forall>v. stored rt (phrases d) (toLowerCase rt (normalizeSpaces text)) = Some v
                  \<and> jsonTruthy v \<longrightarrow>
                translateText rt (Some d) fl text = Inr (Json v))
          \<and> (\<forall>v. stored rt (phrases d) (toLowerCase rt (normalizeSpaces text)) = Some v
                  \<and> \<not> jsonTruthy v \<longrightarrow>
                translateText rt (Some d) fl text = Inr (Json (JStr joined)))
          \<and> (\<forall>obj. phrases d = PlainObject obj
                  \<and> map_of obj (toLowerCase rt (normalizeSpaces text)) = None
                  \<and> toLowerCase rt (normalizeSpaces text) \<notin> set inheritedNames \<longrightarrow>
                translateText rt (Some d) fl text = Inr (Json (JStr joined))))"
proof (intro conjI impI allI)
  let ?key = "toLowerCase rt (normalizeSpaces text)"
  show "\<exists>joined. wordByWord rt (Some d) fl text = Inr joined" if "typedWords d"
    using that by (rule wordByWord_typed)
  show "translateText rt (Some d) fl text = Inr (Json v)"
    if "wordByWord rt (Some d) fl text = Inr joined"
      and "stored rt (phrases d) ?key = Some v \<and> jsonTruthy v" for joined v
    using that assms
    by (simp add: translateText_def lookupPhrase_def containerGet_stored)
  show "translateText rt (Some d) fl text = Inr (Json (JStr joined))"
    if "wordByWord rt (Some d) fl text = Inr joined"
      and "stored rt (phrases d) ?key = Some v \<and> \<not> jsonTruthy v" for joined v
    using that assms
    by (simp add: translateText_def lookupPhrase_def containerGet_stored)
  show "translateText rt (Some d) fl text = Inr (Json (JStr joined))"
    if "wordByWord rt (Some d) fl text = Inr joined"
      and "phrases d = PlainObject obj \<and> map_of obj ?key = None \<and> ?key \<notin> set inheritedNames"
    for joined obj
    using that assms plain_miss [of d obj rt "text"]
    by (simp add: translateText_def)
qed

theorem phrase_overrides_word_by_word_witness:
  "\<forall>rt :: 'arr runtime. \<not> preferPhrases \<lparr>preferPhrases = False, markUnknown = False\<rparr>
     \<and> typedWords (goodMorningDict :: 'arr dict)
     \<and> wordByWord rt (Some goodMorningDict) \<lparr>preferPhrases = False, markUnknown = False\<rparr>
         (str ''Good Morning'') = Inr (str ''Yara Morning'')
     \<and> stored rt (phrases goodMorningDict) (toLowerCase rt (normalizeSpaces (str ''Good Morning'')))
         = Some (JStr (str ''yara muna''))
     \<and> translateText rt (Some goodMorningDict) \<lparr>preferPhrases = False, markUnknown = False\<rparr>
         (str ''Good Morning'') = Inr (Json (JStr (str ''yara muna'')))
     \<and> wordByWord rt (Some goodMorningDict) \<lparr>preferPhrases = False, markUnknown = False\<rparr>
         (str ''Good day'') = Inr (str ''Yara day'')
     \<and> stored rt (phrases goodMorningDict) (toLowerCase rt (normalizeSpaces (str ''Good day'')))
         = None
     \<and> toLowerCase rt (normalizeSpaces (str ''Good day'')) \<notin> set inheritedNames
     \<and> translateText rt (Some goodMorningDict) \<lparr>preferPhrases = False, markUnknown = False\<rparr>
         (str ''Good day'') = Inr (Json (JStr (str ''Yara day'')))"
proof
  fix rt :: "'arr runtime"
  let ?fl = "\<lparr>preferPhrases = False, markUnknown = False\<rparr>"
  let ?d = "goodMorningDict :: 'arr dict"
  have off: "\<not> preferPhrases ?fl" by simp
  have typed: "typedWords ?d"
    by (simp add: typedWords_def goodMorningDict_def)
  have plain: "phrases ?d = PlainObject [(str ''good morning'', JStr (str ''yara muna''))]"
    by (simp add: goodMorningDict_def)
  have hit: "stored rt (phrases ?d) (toLowerCase rt (normalizeSpaces (str ''Good Morning'')))
      = Some (JStr (str ''yara muna''))"
    and miss: "stored rt (phrases ?d) (toLowerCase rt (normalizeSpaces (str ''Good day''))) = None"
    and name: "toLowerCase rt (normalizeSpaces (str ''Good day'')) \<notin> set inheritedNames"
    by (simp_all add: goodMorningDict_def stored_def inheritedNames_def
        objectPrototypeMethods_def normalizeSpaces_def trim_def isSpace_def toLowerCase_def
        isAscii_def str_def char_defs)
  from miss plain
  have miss': "map_of [(str ''good morning'', JStr (str ''yara muna''))]
      (toLowerCase rt (normalizeSpaces (str ''Good day''))) = None"
    by (simp add: stored_def)
  from phrase_overrides_word_by_word [OF off, of ?d rt "str ''Good Morning''"]
    wordByWord_good_morning [of rt] hit
  have t1: "translateText rt (Some ?d) ?fl (str ''Good Morning'')
      = Inr (Json (JStr (str ''yara muna'')))"
    by auto
  from phrase_overrides_word_by_word [OF off, of ?d rt "str ''Good day''"]
    wordByWord_good_day [of rt] plain miss' name
  have t2: "translateText rt (Some ?d) ?fl (str ''Good day'')
      = Inr (Json (JStr (str ''Yara day'')))"
    by auto
  from off typed hit miss name t1 t2 wordByWord_good_morning [of rt] wordByWord_good_day [of rt]
  show "\<not> preferPhrases \<lparr>preferPhrases = False, markUnknown = False\<rparr>
     \<and> typedWords (goodMorningDict :: 'arr dict)
     \<and> wordByWord rt (Some goodMorningDict) \<lparr>preferPhrases = False, markUnknown = False\<rparr>
         (str ''Good Morning'') = Inr (str ''Yara Morning'')
     \<and> stored rt (phrases goodMorningDict) (toLowerCase rt (normalizeSpaces (str ''Good Morning'')))
         = Some (JStr (str ''yara muna''))
     \<and> translateText rt (Some goodMorningDict) \<lparr>preferPhrases = False, markUnknown = False\<rparr>
         (str ''Good Morning'') = Inr (Json (JStr (str ''yara muna'')))
     \<and> wordByWord rt (Some goodMorningDict) \<lparr>preferPhrases = False, markUnknown = False\<rparr>
         (str ''Good day'') = Inr (str ''Yara day'')
     \<and> stored rt (phrases goodMorningDict) (toLowerCase rt (normalizeSpaces (str ''Good day'')))
         = None
     \<and> toLowerCase rt (normalizeSpaces (str ''Good day'')) \<notin> set inheritedNames
     \<and> translateText rt (Some goodMorningDict) \<lparr>preferPhrases = False, markUnknown = False\<rparr>
         (str ''Good day'') = Inr (Json (JStr (str ''Yara day'')))"
    by blast
qed

section \<open>Possessives\<close>













section \<open>Merging bulk additions\<close>

lemma addLine_lineEntry:
  "addLine rt a line =
     (case lineEntry rt line of
        None \<Rightarrow> a
      | Some (isPhrase, k, v) \<Rightarrow>
          if isPhrase then a\<lparr>addsPhrases := objSet (addsPhrases a) k (JStr v)\<rparr>
          else a\<lparr>addsWords := objSet (addsWords a) k (JStr v)\<rparr>)"
  by (simp add: addLine_def lineEntry_def Let_def split: option.splits prod.splits)

lemma map_of_objSet_other: "k' \<noteq> k \<Longrightarrow> map_of (objSet obj k' v) k = map_of obj k"
  by (simp add: objSet_def update_conv')

lemma map_of_objSet_changed: "map_of (objSet obj k' v) k \<noteq> map_of obj k \<Longrightarrow> k' = k"
  using map_of_objSet_other [of k' k obj v] by blast

lemma map_of_objSet_same: "k \<noteq> str ''__proto__'' \<Longrightarrow> map_of (objSet obj k v) k = Some v"
  by (simp add: objSet_def update_conv')

lemma map_of_objSet_kept: "map_of obj k \<noteq> None \<Longrightarrow> map_of (objSet obj k' v) k \<noteq> None"
  by (simp add: objSet_def update_conv')

lemma distinct_objSet: "distinct (map fst obj) \<Longrightarrow> distinct (map fst (objSet obj k v))"
  by (simp add: objSet_def distinct_update)

subsection \<open>The merge loops\<close>

lemma mergeInto_other: "k \<notin> fst ` set kvs \<Longrightarrow> map_of (mergeInto obj kvs) k = map_of obj k"
  unfolding mergeInto_def
  by (induction kvs arbitrary: obj) (auto simp: map_of_objSet_other)

lemma mergeInto_kept: "map_of obj k \<noteq> None \<Longrightarrow> map_of (mergeInto obj kvs) k \<noteq> None"
proof (induction kvs arbitrary: obj)
  case Nil
  then show ?case by (simp add: mergeInto_def)
next
  case (Cons kv kvs)
  obtain k' v' where kv: "kv = (k', v')" by (cases kv)
  from Cons.prems have "map_of (objSet obj k' v') k \<noteq> None"
    by (rule map_of_objSet_kept)
  then have "map_of (mergeInto (objSet obj k' v') kvs) k \<noteq> None"
    by (rule Cons.IH)
  with kv show ?case by (simp add: mergeInto_def)
qed

lemma mergeInto_stored:
  "distinct (map fst kvs) \<Longrightarrow> (k, v) \<in> set kvs \<Longrightarrow> k \<noteq> str ''__proto__'' \<Longrightarrow>
   map_of (mergeInto obj kvs) k = Some v"
proof (induction kvs arbitrary: obj)
  case Nil
  then show ?case by simp
next
  case (Cons kv kvs)
  obtain k' v' where kv: "kv = (k', v')" by (cases kv)
  show ?case
  proof (cases "(k, v) \<in> set kvs")
    case True
    with Cons show ?thesis by (simp add: mergeInto_def)
  next
    case False
    with Cons.prems kv have e: "k' = k" "v' = v" and n: "k \<notin> fst ` set kvs"
      by force+
    have "map_of (mergeInto (objSet obj k v) kvs) k = map_of (objSet obj k v) k"
      using n by (rule mergeInto_other)
    with Cons.prems(3) kv e show ?thesis
      by (simp add: mergeInto_def map_of_objSet_same)
  qed
qed

text \<open>On a plain object the loop of the merge never throws.\<close>

lemma mergeLoop_PlainObject:
  "mergeLoop rt (PlainObject obj) kvs = (PlainObject (mergeInto obj kvs), None)"
  by (induction kvs arbitrary: obj) (auto simp: containerSet_def mergeInto_def)

text \<open>\<^verbatim>\<open>Object.entries\<close> lists every own property once.\<close>

lemma set_objectEntries: "set (objectEntries obj) = set obj"
  by (auto simp: objectEntries_def)

lemma distinct_objectEntries:
  assumes "distinct (map fst obj)"
  shows "distinct (map fst (objectEntries obj))"
proof -
  from assms have d: "distinct obj" and i: "inj_on fst (set obj)"
    by (simp_all add: distinct_map)
  have "distinct (objectEntries obj)"
    using d by (auto simp: objectEntries_def)
  with i show ?thesis
    by (simp add: distinct_map set_objectEntries)
qed

lemma mergeAddsIntoDict_plain:
  assumes "words (ensureDictShape rt (case activeDict of None \<Rightarrow> Parsed JNull | Some d \<Rightarrow> Active d))
      = PlainObject ws"
    and "phrases (ensureDictShape rt (case activeDict of None \<Rightarrow> Parsed JNull | Some d \<Rightarrow> Active d))
      = PlainObject ps"
  shows "mergeAddsIntoDict rt activeDict a =
     (Some ((ensureDictShape rt (case activeDict of None \<Rightarrow> Parsed JNull | Some d \<Rightarrow> Active d))
        \<lparr>words := PlainObject (mergeInto ws (objectEntries (addsWords a))),
         phrases := PlainObject (mergeInto ps (objectEntries (addsPhrases a)))\<rparr>), None)"
  using assms by (simp add: mergeAddsIntoDict_def mergeLoop_PlainObject Let_def)

subsection \<open>The parse loop\<close>

lemma addLine_words_other:
  "\<not> namesWord rt k line \<Longrightarrow>
   map_of (addsWords (addLine rt a line)) k = map_of (addsWords a) k"
  by (auto simp: addLine_lineEntry namesWord_def split: option.splits
      dest: map_of_objSet_changed)

lemma addLine_phrases_other:
  "\<not> namesPhrase rt k line \<Longrightarrow>
   map_of (addsPhrases (addLine rt a line)) k = map_of (addsPhrases a) k"
  by (auto simp: addLine_lineEntry namesPhrase_def split: option.splits
      dest: map_of_objSet_changed)

lemma addLine_words_same:
  "lineEntry rt line = Some (False, k, v) \<Longrightarrow> k \<noteq> str ''__proto__'' \<Longrightarrow>
   map_of (addsWords (addLine rt a line)) k = Some (JStr v)"
  by (simp add: addLine_lineEntry map_of_objSet_same)

lemma proto_no_space: "0x20 \<notin> set (str ''__proto__'')"
  by (simp add: str_def)

lemma lineEntry_phrase_key: "lineEntry rt line = Some (True, k, v) \<Longrightarrow> k \<noteq> str ''__proto__''"
  using proto_no_space
  by (auto simp: lineEntry_def Let_def split: option.splits if_splits)

lemma addLine_phrases_same:
  "lineEntry rt line = Some (True, k, v) \<Longrightarrow>
   map_of (addsPhrases (addLine rt a line)) k = Some (JStr v)"
  using lineEntry_phrase_key [of rt line k v]
  by (simp add: addLine_lineEntry map_of_objSet_same)

lemma foldl_addLine_words_other:
  "\<forall>line \<in> set ls. \<not> namesWord rt k line \<Longrightarrow>
   map_of (addsWords (foldl (addLine rt) a ls)) k = map_of (addsWords a) k"
  by (induction ls arbitrary: a) (auto simp: addLine_words_other)

lemma foldl_addLine_phrases_other:
  "\<forall>line \<in> set ls. \<not> namesPhrase rt k line \<Longrightarrow>
   map_of (addsPhrases (foldl (addLine rt) a ls)) k = map_of (addsPhrases a) k"
  by (induction ls arbitrary: a) (auto simp: addLine_phrases_other)

lemma foldl_addLine_words_last:
  assumes "lineEntry rt line = Some (False, k, v)" and "k \<noteq> str ''__proto__''"
    and "\<forall>later \<in> set ls2. \<not> namesWord rt k later"
  shows "map_of (addsWords (foldl (addLine rt) a (ls1 @ line # ls2))) k = Some (JStr v)"
  using assms by (simp add: foldl_addLine_words_other addLine_words_same)

lemma foldl_addLine_phrases_last:
  assumes "lineEntry rt line = Some (True, k, v)"
    and "\<forall>later \<in> set ls2. \<not> namesPhrase rt k later"
  shows "map_of (addsPhrases (foldl (addLine rt) a (ls1 @ line # ls2))) k = Some (JStr v)"
  using assms by (simp add: foldl_addLine_phrases_other addLine_phrases_same)

lemma addLine_distinct:
  "distinct (map fst (addsWords a)) \<and> distinct (map fst (addsPhrases a)) \<Longrightarrow>
   distinct (map fst (addsWords (addLine rt a line)))
   \<and> distinct (map fst (addsPhrases (addLine rt a line)))"
  by (auto simp: addLine_lineEntry distinct_objSet split: option.splits)

lemma foldl_addLine_distinct:
  "distinct (map fst (addsWords a)) \<and> distinct (map fst (addsPhrases a)) \<Longrightarrow>
   distinct (map fst (addsWords (foldl (addLine rt) a ls)))
   \<and> distinct (map fst (addsPhrases (foldl (addLine rt) a ls)))"
proof (induction ls arbitrary: a)
  case Nil
  then show ?case by simp
next
  case (Cons line ls)
  from Cons.IH [OF addLine_distinct [OF Cons.prems]] show ?case by simp
qed

lemma parseQuickAddLines_fold:
  "parseQuickAddLines rt raw
     = foldl (addLine rt) \<lparr>addsWords = [], addsPhrases = []\<rparr> (quickAddLines raw)"
  by (simp add: parseQuickAddLines_def quickAddLines_def)

lemma parse_distinct:
  "distinct (map fst (addsWords (parseQuickAddLines rt raw)))
   \<and> distinct (map fst (addsPhrases (parseQuickAddLines rt raw)))"
  unfolding parseQuickAddLines_fold by (rule foldl_addLine_distinct) simp

text \<open>
  The merge of parsed lines into a dictionary whose \<^verbatim>\<open>words\<close> and \<^verbatim>\<open>phrases\<close> are plain
  objects, for every key but \<^verbatim>\<open>__proto__\<close>: the merge does not throw; the last line that
  names a key decides its value, in \<^verbatim>\<open>phrases\<close> when its normalized left side has a space
  and in \<^verbatim>\<open>words\<close> otherwise; a key no line names keeps what it had; no key is removed;
  \<^verbatim>\<open>meta\<close> is untouched.
\<close>

lemma merge_of_lines:
  fixes rt :: "'arr runtime" and activeDict :: "'arr dict option" and raw :: jsstring
  defines "before \<equiv>
      ensureDictShape rt (case activeDict of None \<Rightarrow> Parsed JNull | Some d \<Rightarrow> Active d)"
  assumes ws: "words before = PlainObject ws" and ps: "phrases before = PlainObject ps"
  shows "\<exists>ws' ps'.
      mergeAddsIntoDict rt activeDict (parseQuickAddLines rt raw)
        = (Some (before\<lparr>words := PlainObject ws', phrases := PlainObject ps'\<rparr>), None)
      \<and> (\<forall>ls1 line ls2 k v.
            quickAddLines raw = ls1 @ line # ls2 \<and> lineEntry rt line = Some (False, k, v)
            \<and> k \<noteq> str ''__proto__'' \<and> (\<forall>later \<in> set ls2. \<not> namesWord rt k later) \<longrightarrow>
            map_of ws' k = Some (JStr v))
      \<and> (\<forall>ls1 line ls2 k v.
            quickAddLines raw = ls1 @ line # ls2 \<and> lineEntry rt line = Some (True, k, v)
            \<and> (\<forall>later \<in> set ls2. \<not> namesPhrase rt k later) \<longrightarrow>
            map_of ps' k = Some (JStr v))
      \<and> (\<forall>k. (\<forall>l \<in> set (quickAddLines raw). \<not> namesWord rt k l) \<longrightarrow> map_of ws' k = map_of ws k)
      \<and> (\<forall>k. (\<forall>l \<in> set (quickAddLines raw). \<not> namesPhrase rt k l) \<longrightarrow>
            map_of ps' k = map_of ps k)
      \<and> (\<forall>k. map_of ws k \<noteq> None \<longrightarrow> map_of ws' k \<noteq> None)
      \<and> (\<forall>k. map_of ps k \<noteq> None \<longrightarrow> map_of ps' k \<noteq> None)"
proof -
  let ?a = "parseQuickAddLines rt raw"
  let ?ws' = "mergeInto ws (objectEntries (addsWords ?a))"
  let ?ps' = "mergeInto ps (objectEntries (addsPhrases ?a))"
  note d = parse_distinct [of rt raw]
  have dw: "distinct (map fst (objectEntries (addsWords ?a)))"
    and dp: "distinct (map fst (objectEntries (addsPhrases ?a)))"
    using d by (simp_all add: distinct_objectEntries)
  have m: "mergeAddsIntoDict rt activeDict ?a
      = (Some (before\<lparr>words := PlainObject ?ws', phrases := PlainObject ?ps'\<rparr>), None)"
    unfolding before_def
    by (rule mergeAddsIntoDict_plain) (use ws ps in \<open>simp_all add: before_def\<close>)
  have w1: "map_of ?ws' k = Some (JStr v)"
    if a: "quickAddLines raw = ls1 @ line # ls2 \<and> lineEntry rt line = Some (False, k, v)
           \<and> k \<noteq> str ''__proto__'' \<and> (\<forall>later \<in> set ls2. \<not> namesWord rt k later)"
    for ls1 line ls2 k v
  proof -
    from a have "map_of (addsWords ?a) k = Some (JStr v)"
      unfolding parseQuickAddLines_fold
      using foldl_addLine_words_last [of rt line k v ls2 _ ls1] by simp
    then have "(k, JStr v) \<in> set (objectEntries (addsWords ?a))"
      by (simp add: set_objectEntries map_of_SomeD)
    with dw a show ?thesis by (simp add: mergeInto_stored)
  qed
  have p1: "map_of ?ps' k = Some (JStr v)"
    if a: "quickAddLines raw = ls1 @ line # ls2 \<and> lineEntry rt line = Some (True, k, v)
           \<and> (\<forall>later \<in> set ls2. \<not> namesPhrase rt k later)"
    for ls1 line ls2 k v
  proof -
    from a have "map_of (addsPhrases ?a) k = Some (JStr v)"
      unfolding parseQuickAddLines_fold
      using foldl_addLine_phrases_last [of rt line k v ls2 _ ls1] by simp
    then have "(k, JStr v) \<in> set (objectEntries (addsPhrases ?a))"
      by (simp add: set_objectEntries map_of_SomeD)
    moreover from a have "k \<noteq> str ''__proto__''" using lineEntry_phrase_key by blast
    ultimately show ?thesis using dp by (simp add: mergeInto_stored)
  qed
  have w2: "map_of ?ws' k = map_of ws k"
    if "\<forall>l \<in> set (quickAddLines raw). \<not> namesWord rt k l" for k
  proof -
    from that have "map_of (addsWords ?a) k = None"
      by (simp add: parseQuickAddLines_fold foldl_addLine_words_other)
    then have "k \<notin> fst ` set (objectEntries (addsWords ?a))"
      by (simp add: map_of_eq_None_iff set_objectEntries)
    then show ?thesis by (rule mergeInto_other)
  qed
  have p2: "map_of ?ps' k = map_of ps k"
    if "\<forall>l \<in> set (quickAddLines raw). \<not> namesPhrase rt k l" for k
  proof -
    from that have "map_of (addsPhrases ?a) k = None"
      by (simp add: parseQuickAddLines_fold foldl_addLine_phrases_other)
    then have "k \<notin> fst ` set (objectEntries (addsPhrases ?a))"
      by (simp add: map_of_eq_None_iff set_objectEntries)
    then show ?thesis by (rule mergeInto_other)
  qed
  have w3: "map_of ws k \<noteq> None \<longrightarrow> map_of ?ws' k \<noteq> None" for k
    by (simp add: mergeInto_kept)
  have p3: "map_of ps k \<noteq> None \<longrightarrow> map_of ?ps' k \<noteq> None" for k
    by (simp add: mergeInto_kept)
  from m w1 p1 w2 p2 w3 p3 show ?thesis by blast
qed

subsection \<open>The key that is not stored\<close>

text \<open>
  C9. Every bulk-add line of the form \<^verbatim>\<open>left = right\<close> with non-empty normalized sides
  is stored by the merge, in \<^verbatim>\<open>phrases\<close> or in \<^verbatim>\<open>words\<close>, under its case-folded key. On
  a dictionary of plain objects the code does so for every key but one (\<open>merge_of_lines\<close>
  above): the line \<^verbatim>\<open>__proto__ = x\<close> is such a line, for \<^verbatim>\<open>words\<close>, and nothing is stored
  for it. The parse gives no additions at all, and the merged dictionary is the
  dictionary before.
\<close>

theorem proto_line_is_dropped:
  "\<forall>rt. lineEntry rt (str ''__proto__ = x'') = Some (False, str ''__proto__'', str ''x'')
     \<and> parseQuickAddLines rt (str ''__proto__ = x'') = \<lparr>addsWords = [], addsPhrases = []\<rparr>
     \<and> mergeAddsIntoDict rt (Some goodMorningDict) (parseQuickAddLines rt (str ''__proto__ = x''))
         = (Some goodMorningDict, None)
     \<and> map_option (\<lambda>d. stored rt (words d) (str ''__proto__''))
         (fst (mergeAddsIntoDict rt (Some goodMorningDict)
            (parseQuickAddLines rt (str ''__proto__ = x'')))) = Some None"
  by (simp add: lineEntry_def parseQuickAddLines_def addLine_def matchLine_def dot_def
      isLineTerminator_def objSet_def mergeAddsIntoDict_def ensureDictShape_def
      objectEntries_def stored_def goodMorningDict_def normalizeSpaces_def trim_def
      isSpace_def toLowerCase_def isAscii_def str_def char_defs Let_def)

text \<open>The same merge on lines with other keys.\<close>

lemma merge_example:
  "mergeAddsIntoDict rt (Some goodMorningDict)
     (parseQuickAddLines rt (str ''hello = ya'' @ [0x0A] @ str ''Good   Morning =  Yara Muna''
        @ [0x0A] @ str ''not a line'' @ [0x0A] @ str ''good = Yo''))
   = (Some \<lparr>meta = PlainObject [],
            words = PlainObject [(str ''good'', JStr (str ''Yo'')), (str ''hello'', JStr (str ''ya''))],
            phrases = PlainObject [(str ''good morning'', JStr (str ''Yara Muna''))]\<rparr>, None)"
  by (simp add: parseQuickAddLines_def addLine_def matchLine_def dot_def
      isLineTerminator_def objSet_def mergeAddsIntoDict_def ensureDictShape_def
      objectEntries_def arrayIndex_def isDigit_def containerSet_def
      goodMorningDict_def normalizeSpaces_def trim_def isSpace_def toLowerCase_def
      isAscii_def str_def char_defs Let_def)

text \<open>The order of \<^verbatim>\<open>Object.entries\<close>: array indices first, in ascending order.\<close>

lemma objectEntries_example:
  "objectEntries [(str ''b'', JNull), (str ''10'', JNull), (str ''2'', JNull), (str ''01'', JNull)]
   = [(str ''2'', JNull), (str ''10'', JNull), (str ''b'', JNull), (str ''01'', JNull)]"
  by (simp add: objectEntries_def arrayIndex_def isDigit_def digitsValue_def str_def)

text \<open>\<^verbatim>\<open>ensureDictShape\<close> on parsed values: an array is let through as a part.\<close>

lemma ensureDictShape_example:
  "ensureDictShape rt (Parsed (JObj [(str ''words'', JStr (str ''x'')),
       (str ''phrases'', JArr [JStr (str ''a'')])]))
   = \<lparr>meta = PlainObject [], words = PlainObject [],
      phrases = ArrayObject (arrayOfJson rt [JStr (str ''a'')])\<rparr>
   \<and> ensureDictShape rt (Parsed (JArr [])) = emptyDict
   \<and> ensureDictShape rt (Parsed JNull) = emptyDict
   \<and> ensureDictShape rt (Active d) = d"
  by (simp add: ensureDictShape_def shapePart_def objGet_def inherited_def
      objectPrototypeMethods_def emptyDict_def)

end
